theory Spec2Isabelle
  imports Complex_Main "HOL-Library.Log_Nat"
begin

section \<open>Values read from the critiques file\<close>

text \<open>
  \<open>json.load\<close> yields Python values: \<open>None\<close>, booleans, integers, floats, strings, lists
  and dictionaries. A \<open>char\<close> stands for one code point below 256. The program observes a
  float only through its truth value and through its text when formatted, so a float is
  carried as exactly these two observations. A dictionary is an association list read
  with \<open>map_of\<close>.
\<close>

datatype pyfloat = PyFloat (float_nonzero: bool) (float_text: string)

datatype json =
    JNull
  | JBool bool
  | JInt int
  | JFloat pyfloat
  | JStr string
  | JArr "json list"
  | JObj "(string \<times> json) list"

datatype error =
    TypeError
  | AttributeError
  | KeyError
  | JSONDecodeError
  | IsADirectoryError
  | OSError

abbreviation BS :: string where "BS \<equiv> [CHR 0x5C]"
abbreviation NL :: string where "NL \<equiv> [CHR 0x0A]"

subsection \<open>Python primitives the program relies on\<close>

fun truthy :: "json \<Rightarrow> bool" where
  "truthy JNull = False"
| "truthy (JBool b) = b"
| "truthy (JInt n) = (n \<noteq> 0)"
| "truthy (JFloat f) = float_nonzero f"
| "truthy (JStr s) = (s \<noteq> [])"
| "truthy (JArr xs) = (xs \<noteq> [])"
| "truthy (JObj kvs) = (kvs \<noteq> [])"

fun is_dict :: "json \<Rightarrow> bool" where
  "is_dict (JObj kvs) = True"
| "is_dict v = False"

definition dict_get :: "(string \<times> json) list \<Rightarrow> string \<Rightarrow> json \<Rightarrow> json" where
  "dict_get kvs k d = (case map_of kvs k of Some v \<Rightarrow> v | None \<Rightarrow> d)"

definition has_key :: "(string \<times> json) list \<Rightarrow> string \<Rightarrow> bool" where
  "has_key kvs k = (map_of kvs k \<noteq> None)"

text \<open>\<open>v.get(k, d)\<close>: only a dictionary has the method.\<close>

fun py_get :: "json \<Rightarrow> string \<Rightarrow> json \<Rightarrow> error + json" where
  "py_get (JObj kvs) k d = Inr (dict_get kvs k d)"
| "py_get v k d = Inl AttributeError"

text \<open>\<open>sub in s\<close> on strings.\<close>

fun str_contains :: "string \<Rightarrow> string \<Rightarrow> bool" where
  "str_contains [] sub = (sub = [])"
| "str_contains (c # cs) sub = (take (length sub) (c # cs) = sub \<or> str_contains cs sub)"

text \<open>
  \<open>k in v\<close> for a string \<open>k\<close>: key test on a dictionary, element test on a list,
  substring test on a string, \<open>TypeError\<close> on anything else.
\<close>

fun py_in :: "string \<Rightarrow> json \<Rightarrow> error + bool" where
  "py_in k (JObj kvs) = Inr (has_key kvs k)"
| "py_in k (JArr xs) = Inr (JStr k \<in> set xs)"
| "py_in k (JStr s) = Inr (str_contains s k)"
| "py_in k v = Inl TypeError"

text \<open>\<open>v[k]\<close> for a string \<open>k\<close>.\<close>

fun py_subscript :: "json \<Rightarrow> string \<Rightarrow> error + json" where
  "py_subscript (JObj kvs) k = (case map_of kvs k of Some v \<Rightarrow> Inr v | None \<Rightarrow> Inl KeyError)"
| "py_subscript v k = Inl TypeError"

text \<open>\<open>for x in v\<close>: the elements of a list, the keys of a dictionary, the characters of a string.\<close>

fun py_iter :: "json \<Rightarrow> error + json list" where
  "py_iter (JArr xs) = Inr xs"
| "py_iter (JObj kvs) = Inr (map JStr (remdups (map fst kvs)))"
| "py_iter (JStr s) = Inr (map (\<lambda>c. JStr [c]) s)"
| "py_iter v = Inl TypeError"

definition bind_e :: "error + 'a \<Rightarrow> ('a \<Rightarrow> error + 'b) \<Rightarrow> error + 'b" where
  "bind_e m f = (case m of Inl e \<Rightarrow> Inl e | Inr x \<Rightarrow> f x)"

text \<open>\<open>str.isspace\<close> on code points below 256, and \<open>str.strip()\<close>.\<close>

definition is_space :: "char \<Rightarrow> bool" where
  "is_space c = (c \<in> set [CHR 0x09, CHR 0x0A, CHR 0x0B, CHR 0x0C, CHR 0x0D,
                           CHR 0x1C, CHR 0x1D, CHR 0x1E, CHR 0x1F, CHR 0x20,
                           CHR 0x85, CHR 0xA0])"

definition strip :: "string \<Rightarrow> string" where
  "strip s = rev (dropWhile is_space (rev (dropWhile is_space s)))"

section \<open>Text Escaper\<close>

definition reserved :: "char \<Rightarrow> bool" where
  "reserved c = (c \<in> set ''&%$#_{}'')"

text \<open>\<open>re.sub(r'([&%$#_{}])', r'\\\1', text)\<close>: every match is one character.\<close>

fun escape_latex :: "json \<Rightarrow> string" where
  "escape_latex (JStr text) = concat (map (\<lambda>c. if reserved c then BS @ [c] else [c]) text)"
| "escape_latex v = []"

section \<open>Math-Block Formatter\<close>

text \<open>
  \<open>re.sub(r'^OPEN(.*)CLOSE$', r'\1', text)\<close> for literal delimiters: \<open>^\<close> anchors at the
  start, \<open>.\<close> matches anything but a line feed, and \<open>$\<close> matches at the end of the text
  or just before a line feed that ends it.
\<close>

definition re_sub_wrapped :: "string \<Rightarrow> string \<Rightarrow> string \<Rightarrow> string" where
  "re_sub_wrapped opn cls text =
     (let body = (if text \<noteq> [] \<and> last text = CHR 0x0A then butlast text else text);
          inner = drop (length opn) (take (length body - length cls) body)
      in if length opn + length cls \<le> length body
            \<and> take (length opn) body = opn
            \<and> drop (length body - length cls) body = cls
            \<and> CHR 0x0A \<notin> set inner
         then inner @ drop (length body) text
         else text)"

definition unwrap_delimiters :: "string \<Rightarrow> string" where
  "unwrap_delimiters text0 =
     (let text = strip text0;
          text = strip (re_sub_wrapped (BS @ ''['') (BS @ '']'') text);
          text = strip (re_sub_wrapped (BS @ ''('') (BS @ '')'') text);
          text = strip (re_sub_wrapped ''$$'' ''$$'' text);
          text = strip (re_sub_wrapped ''$'' ''$'' text)
      in text)"

fun format_tex_display_math :: "json \<Rightarrow> string" where
  "format_tex_display_math (JStr text) = BS @ ''[ '' @ unwrap_delimiters text @ '' '' @ BS @ '']''"
| "format_tex_display_math v = []"

text \<open>
  The brace repair that precedes both calls of the formatter in
  \<open>generate_critiques_section\<close>, on a string.
\<close>

definition repair_boxed :: "string \<Rightarrow> string" where
  "repair_boxed final_solution =
     (if str_contains final_solution (BS @ ''boxed{'') then
        if count_list final_solution CHR ''{'' \<noteq> count_list final_solution CHR ''}'' then
          (let open_count = count_list final_solution CHR ''{'';
               close_count = count_list final_solution CHR ''}''
           in if open_count > close_count
              then final_solution @ replicate (open_count - close_count) CHR ''}''
              else final_solution)
        else final_solution
      else final_solution)"

section \<open>Formatting numbers\<close>

definition digit_char :: "nat \<Rightarrow> char" where
  "digit_char d = char_of (48 + d)"

function show_nat :: "nat \<Rightarrow> string" where
  "show_nat n = (if n < 10 then [digit_char n] else show_nat (n div 10) @ [digit_char (n mod 10)])"
  by pat_completeness auto
termination
  by (relation "measure id") auto

definition show_int :: "int \<Rightarrow> string" where
  "show_int i = (if i < 0 then ''-'' @ show_nat (nat (- i)) else show_nat (nat i))"

text \<open>
  What an f-string field \<open>{v}\<close> inserts. The text of a list or a dictionary is built from
  \<open>repr\<close> of its parts; it is taken as the parameter \<open>ct\<close>.
\<close>

fun py_format :: "(json \<Rightarrow> string) \<Rightarrow> json \<Rightarrow> string" where
  "py_format ct (JStr s) = s"
| "py_format ct (JInt n) = show_int n"
| "py_format ct (JBool b) = (if b then ''True'' else ''False'')"
| "py_format ct JNull = ''None''"
| "py_format ct (JFloat f) = float_text f"
| "py_format ct v = ct v"

text \<open>
  Double precision arithmetic on exact rationals: a result is the nearest number with a
  53 bit significand, ties to even. The exponent range is not limited: the quotients below
  are of counts of list entries, far inside it.
\<close>

definition round_half_even :: "rat \<Rightarrow> int" where
  "round_half_even q =
     (let f = \<lfloor>q\<rfloor>; d = q - of_int f
      in if d < 1 / 2 then f else if d > 1 / 2 then f + 1 else if even f then f else f + 1)"

definition binary_exponent :: "rat \<Rightarrow> int" where
  "binary_exponent q =
     (let k = bitlen (fst (quotient_of q)) - bitlen (snd (quotient_of q))
      in if 2 powi k \<le> q then k else k - 1)"

definition to_double :: "rat \<Rightarrow> rat" where
  "to_double q =
     (if q = 0 then 0
      else let e = binary_exponent \<bar>q\<bar> - 52
           in sgn q * of_int (round_half_even (\<bar>q\<bar> / 2 powi e)) * 2 powi e)"

text \<open>\<open>f"{y:.1f}"\<close>: one digit after the point, correctly rounded, ties to even.\<close>

definition format_1f :: "rat \<Rightarrow> string" where
  "format_1f y =
     (let n = nat (round_half_even (\<bar>y\<bar> * 10))
      in (if y < 0 then ''-'' else []) @ show_nat (n div 10) @ ''.'' @ show_nat (n mod 10))"

section \<open>Summary Tabulator\<close>

record stats =
  sc_pass :: nat
  sc_fail :: nat
  diff_pass :: nat
  diff_fail :: nat
  diff_removed :: nat
  ud_pass :: nat
  ud_fail :: nat
  ud_removed :: nat
  ref_success :: nat
  ref_fail :: nat

definition stats0 :: stats where
  "stats0 = \<lparr>sc_pass = 0, sc_fail = 0, diff_pass = 0, diff_fail = 0, diff_removed = 0,
             ud_pass = 0, ud_fail = 0, ud_removed = 0, ref_success = 0, ref_fail = 0\<rparr>"

text \<open>
  \<open>k in critiques and isinstance(critiques[k], dict)\<close>: the critique object under \<open>k\<close>
  when the test holds.
\<close>

definition category_dict :: "json \<Rightarrow> string \<Rightarrow> error + (string \<times> json) list option" where
  "category_dict critiques k =
     bind_e (py_in k critiques) (\<lambda>present.
       if present then
         bind_e (py_subscript critiques k) (\<lambda>v. Inr (case v of JObj c \<Rightarrow> Some c | _ \<Rightarrow> None))
       else Inr None)"

definition count_self_containment :: "stats \<Rightarrow> (string \<times> json) list \<Rightarrow> stats" where
  "count_self_containment st c =
     (if truthy (dict_get c ''is_self_contained'' (JBool False))
      then st\<lparr>sc_pass := sc_pass st + 1\<rparr>
      else st\<lparr>sc_fail := sc_fail st + 1\<rparr>)"

definition count_difficulty :: "bool \<Rightarrow> stats \<Rightarrow> (string \<times> json) list \<Rightarrow> stats" where
  "count_difficulty is_removed st c =
     (if is_removed then st\<lparr>diff_removed := diff_removed st + 1\<rparr>
      else if truthy (dict_get c ''is_non_trivial'' (JBool False))
      then st\<lparr>diff_pass := diff_pass st + 1\<rparr>
      else st\<lparr>diff_fail := diff_fail st + 1\<rparr>)"

definition count_useful_derivation :: "bool \<Rightarrow> stats \<Rightarrow> (string \<times> json) list \<Rightarrow> stats" where
  "count_useful_derivation is_removed st c =
     (if is_removed \<and> \<not> truthy (dict_get c ''is_useful_derivation'' (JBool True))
      then st\<lparr>ud_removed := ud_removed st + 1\<rparr>
      else if truthy (dict_get c ''is_useful_derivation'' (JBool False))
      then st\<lparr>ud_pass := ud_pass st + 1\<rparr>
      else st\<lparr>ud_fail := ud_fail st + 1\<rparr>)"

definition count_refinement :: "bool \<Rightarrow> stats \<Rightarrow> (string \<times> json) list \<Rightarrow> stats" where
  "count_refinement is_removed st entry =
     (if \<not> is_removed then
        (let refined = dict_get entry ''refined_problem'' (JObj [])
         in if (case refined of JObj r \<Rightarrow> \<not> has_key r ''error'' | _ \<Rightarrow> False)
            then st\<lparr>ref_success := ref_success st + 1\<rparr>
            else st\<lparr>ref_fail := ref_fail st + 1\<rparr>)
      else st)"

text \<open>One pass of the loop over \<open>critiques_data\<close>.\<close>

definition tally_entry :: "stats \<Rightarrow> json \<Rightarrow> error + stats" where
  "tally_entry st critique_entry =
     (case critique_entry of
        JObj entry \<Rightarrow>
          (let critiques = dict_get entry ''critiques'' (JObj []);
               is_removed = truthy (dict_get entry ''removed'' (JBool False))
           in bind_e (category_dict critiques ''self_containment'') (\<lambda>sc.
              let st = (case sc of Some c \<Rightarrow> count_self_containment st c | None \<Rightarrow> st)
              in bind_e (category_dict critiques ''difficulty'') (\<lambda>df.
              let st = (case df of Some c \<Rightarrow> count_difficulty is_removed st c | None \<Rightarrow> st)
              in bind_e (category_dict critiques ''useful_derivation'') (\<lambda>ud.
              let st = (case ud of Some c \<Rightarrow> count_useful_derivation is_removed st c | None \<Rightarrow> st)
              in Inr (count_refinement is_removed st entry)))))
      | _ \<Rightarrow> Inl AttributeError)"

fun tally :: "stats \<Rightarrow> json list \<Rightarrow> error + stats" where
  "tally st [] = Inr st"
| "tally st (e # es) = bind_e (tally_entry st e) (\<lambda>st'. tally st' es)"

text \<open>\<open>str.replace("_", " ")\<close> and \<open>str.title()\<close>, the latter on ASCII letters.\<close>

definition replace_underscores :: "string \<Rightarrow> string" where
  "replace_underscores s = map (\<lambda>c. if c = CHR ''_'' then CHR '' '' else c) s"

definition is_ascii_lower :: "char \<Rightarrow> bool" where
  "is_ascii_lower c = (97 \<le> (of_char c :: nat) \<and> (of_char c :: nat) \<le> 122)"

definition is_ascii_upper :: "char \<Rightarrow> bool" where
  "is_ascii_upper c = (65 \<le> (of_char c :: nat) \<and> (of_char c :: nat) \<le> 90)"

fun title_from :: "bool \<Rightarrow> string \<Rightarrow> string" where
  "title_from prev [] = []"
| "title_from prev (c # cs) =
     (if is_ascii_lower c then (if prev then c else char_of (of_char c - (32::nat))) # title_from True cs
      else if is_ascii_upper c then (if prev then char_of (of_char c + (32::nat)) else c) # title_from True cs
      else c # title_from False cs)"

definition py_title :: "string \<Rightarrow> string" where
  "py_title s = title_from False s"

definition pass_rate :: "nat \<Rightarrow> nat \<Rightarrow> string" where
  "pass_rate pass_count total_count =
     (if total_count > 0
      then format_1f (to_double (to_double (of_nat pass_count / of_nat total_count) * 100))
           @ BS @ ''%''
      else ''N/A'')"

definition summary_row :: "string \<Rightarrow> nat \<Rightarrow> nat \<Rightarrow> nat \<Rightarrow> string" where
  "summary_row type_name pass_count fail_count removed_count =
     (let total_count = pass_count + fail_count + removed_count
      in type_name @ '' & '' @ show_nat pass_count @ '' & '' @ show_nat fail_count @ '' & ''
         @ show_nat removed_count @ '' & '' @ pass_rate pass_count total_count @ '' '' @ BS @ BS @ NL)"

definition category_name :: "string \<Rightarrow> string" where
  "category_name critique_type = escape_latex (JStr (py_title (replace_underscores critique_type)))"

text \<open>The rows, in the order of the keys of \<open>stats\<close>.\<close>

definition summary_rows :: "stats \<Rightarrow> string list" where
  "summary_rows st =
     [summary_row (category_name ''self_containment'') (sc_pass st) (sc_fail st) 0,
      summary_row (category_name ''difficulty'') (diff_pass st) (diff_fail st) (diff_removed st),
      summary_row (category_name ''useful_derivation'') (ud_pass st) (ud_fail st) (ud_removed st),
      summary_row ''Refinement Success'' (ref_success st) (ref_fail st) 0]"

definition summary_head :: string where
  "summary_head =
     NL @ BS @ ''section*{Summary Statistics}'' @ NL @ BS @ ''begin{center}'' @ NL @
     BS @ ''begin{longtable}{|l|c|c|c|c|}'' @ NL @ BS @ ''hline'' @ NL @ BS @
     ''textbf{Critique Type} & '' @ BS @ ''textbf{Pass} & '' @ BS @
     ''textbf{Fail} & '' @ BS @ ''textbf{Removed} & '' @ BS @ ''textbf{Pass Rate} '' @
     BS @ BS @ NL @ BS @ ''hline'' @ NL @ BS @ ''endfirsthead'' @ NL @ BS @ ''hline'' @
     NL @ BS @ ''endfoot'' @ NL"

definition summary_foot :: string where
  "summary_foot =
     BS @ ''hline'' @ NL @ BS @ ''end{longtable}'' @ NL @ BS @ ''end{center}'' @ NL"

definition render_summary :: "stats \<Rightarrow> string" where
  "render_summary st = summary_head @ concat (summary_rows st) @ summary_foot"

definition generate_summary_table :: "json \<Rightarrow> error + string" where
  "generate_summary_table critiques_data =
     bind_e (py_iter critiques_data) (\<lambda>entries.
     bind_e (tally stats0 entries) (\<lambda>st. Inr (render_summary st)))"

section \<open>Record Renderer\<close>

definition critique_error_notice :: string where
  "critique_error_notice = BS @ ''textcolor{fail}{'' @ BS @ ''textbf{Error parsing critique}}'' @ NL @ NL"

text \<open>The body of the loop over \<open>issues\<close>.\<close>

fun issue_items :: "(json \<Rightarrow> string) \<Rightarrow> json list \<Rightarrow> error + string" where
  "issue_items ct [] = Inr []"
| "issue_items ct (issue # rest) =
     bind_e (py_get issue ''finding'' (JStr [])) (\<lambda>finding.
     bind_e (py_get issue ''suggestion'' (JStr [])) (\<lambda>suggestion.
     bind_e (issue_items ct rest) (\<lambda>more.
       Inr (BS @ ''item '' @ BS @ ''textbf{Finding:} '' @ py_format ct finding @ BS @ BS @ NL
            @ BS @ ''textbf{Suggestion:} '' @ py_format ct suggestion @ NL
            @ more))))"

definition status_of :: "string \<Rightarrow> (string \<times> json) list \<Rightarrow> bool \<times> string" where
  "status_of critique_type critique_data =
     (if critique_type = ''self_containment'' then
        (let status = truthy (dict_get critique_data ''is_self_contained'' (JBool False))
         in (status, if status then ''Self-contained'' else ''Not self-contained''))
      else if critique_type = ''difficulty'' then
        (let status = truthy (dict_get critique_data ''is_non_trivial'' (JBool False))
         in (status, if status then ''Non-trivial'' else ''Trivial''))
      else if critique_type = ''useful_derivation'' then
        (let status = truthy (dict_get critique_data ''is_useful_derivation'' (JBool False))
         in (status, if status then ''Useful'' else ''Useless''))
      else (False, ''Unknown''))"

definition format_critique_section :: "(json \<Rightarrow> string) \<Rightarrow> string \<Rightarrow> json \<Rightarrow> error + string" where
  "format_critique_section ct critique_type critique_data =
     (case critique_data of
        JObj d \<Rightarrow>
          if \<not> has_key d ''error'' then
            (let (status, status_text) = status_of critique_type d;
                 color = (if status then ''pass'' else ''fail'');
                 tex = BS @ ''textcolor{'' @ color @ ''}{'' @ BS @ ''textbf{Status: '' @ status_text
                       @ ''}}'' @ NL @ NL;
                 critique_text = dict_get d ''critique'' (JStr ''No critique provided'');
                 tex = tex @ py_format ct critique_text @ NL @ NL;
                 issues = dict_get d ''issues'' (JArr [])
             in if truthy issues then
                  bind_e (py_iter issues) (\<lambda>xs.
                  bind_e (issue_items ct xs) (\<lambda>items.
                    Inr (tex @ BS @ ''textbf{Issues found:}'' @ NL
                         @ BS @ ''begin{itemize}'' @ NL
                         @ items
                         @ BS @ ''end{itemize}'' @ NL)))
                else Inr tex)
          else Inr critique_error_notice
      | _ \<Rightarrow> Inr critique_error_notice)"

text \<open>
  The brace repair on whatever value the solution field holds: \<open>in\<close>, \<open>count\<close> and \<open>+=\<close>
  exist on a list as well, a dictionary has no \<open>count\<close>, and \<open>in\<close> fails on the rest.
\<close>

fun repair_value :: "json \<Rightarrow> error + json" where
  "repair_value (JStr s) = Inr (JStr (repair_boxed s))"
| "repair_value (JArr xs) =
     Inr (JArr (if JStr (BS @ ''boxed{'') \<in> set xs then
                  if count_list xs (JStr ''{'') \<noteq> count_list xs (JStr ''}'') then
                    (let open_count = count_list xs (JStr ''{'');
                         close_count = count_list xs (JStr ''}'')
                     in if open_count > close_count
                        then xs @ replicate (open_count - close_count) (JStr ''}'')
                        else xs)
                  else xs
                else xs))"
| "repair_value (JObj kvs) = (if has_key kvs (BS @ ''boxed{'') then Inl AttributeError else Inr (JObj kvs))"
| "repair_value v = Inl TypeError"

definition solution_block :: "json \<Rightarrow> error + string" where
  "solution_block final_solution =
     bind_e (repair_value final_solution) (\<lambda>v. Inr (format_tex_display_math v @ NL @ NL))"

definition critique_block :: "(json \<Rightarrow> string) \<Rightarrow> json \<Rightarrow> string \<Rightarrow> string \<Rightarrow> error + string" where
  "critique_block ct critiques critique_type heading =
     bind_e (py_in critique_type critiques) (\<lambda>present.
       if present then
         bind_e (py_subscript critiques critique_type) (\<lambda>critique_data.
         bind_e (format_critique_section ct critique_type critique_data) (\<lambda>tex.
           Inr (BS @ ''paragraph*{'' @ heading @ ''}'' @ NL @ tex @ NL)))
       else Inr [])"

definition removal_notice :: "(string \<times> json) list \<Rightarrow> string" where
  "removal_notice entry =
     BS @ ''subsubsection*{Problem Status}'' @ NL
     @ BS @ ''textcolor{fail}{'' @ BS @ ''textbf{REMOVED: ''
     @ escape_latex (dict_get entry ''removal_reason'' (JStr ''Marked for removal''))
     @ ''}}'' @ NL @ NL"

definition exclusion_notice :: string where
  "exclusion_notice =
     BS @ ''subsubsection*{Problem Status}'' @ NL
     @ BS @ ''textcolor{fail}{'' @ BS @ ''textbf{EXCLUDED: Trivial problem - refinement failed}}''
     @ NL @ NL"

definition refined_heading :: string where
  "refined_heading = BS @ ''subsubsection*{Refined Problem}'' @ NL"

definition refinement_error_notice :: string where
  "refinement_error_notice =
     BS @ ''textcolor{fail}{'' @ BS @ ''textbf{Error refining problem}}'' @ NL @ NL"

definition refined_body :: "(json \<Rightarrow> string) \<Rightarrow> json \<Rightarrow> error + string" where
  "refined_body ct refined =
     (case refined of
        JObj r \<Rightarrow>
          if \<not> has_key r ''error'' then
            (let problem_key = (if has_key r ''problem_statement'' then ''problem_statement'' else ''question'');
                 solution_key = (if has_key r ''final_solution'' then ''final_solution'' else ''answer'');
                 refined_problem = dict_get r problem_key (JStr ''No refined problem statement'');
                 refined_solution = dict_get r solution_key (JStr ''No solution'')
             in bind_e (solution_block refined_solution) (\<lambda>sol.
                  Inr (BS @ ''paragraph*{Refined Problem Statement:}'' @ NL
                       @ py_format ct refined_problem @ NL @ NL
                       @ BS @ ''paragraph*{Refined Solution:}'' @ NL
                       @ sol)))
          else Inr refinement_error_notice
      | _ \<Rightarrow> Inr refinement_error_notice)"

text \<open>The outcome subsection that closes a record: removed, excluded or refined.\<close>

definition outcome_section :: "(json \<Rightarrow> string) \<Rightarrow> (string \<times> json) list \<Rightarrow> error + string" where
  "outcome_section ct entry =
     (let refined = dict_get entry ''refined_problem'' (JObj []);
          is_removed = dict_get entry ''removed'' (JBool False);
          included_in_dataset = dict_get entry ''included_in_dataset'' (JBool True)
      in if truthy is_removed then Inr (removal_notice entry)
         else if \<not> truthy included_in_dataset then Inr exclusion_notice
         else bind_e (refined_body ct refined) (\<lambda>body. Inr (refined_heading @ body)))"

definition entry_heading :: "(json \<Rightarrow> string) \<Rightarrow> nat \<Rightarrow> (string \<times> json) list \<Rightarrow> string" where
  "entry_heading ct i entry =
     (let paper_id = escape_latex (dict_get entry ''paper_id'' (JStr ''N/A''));
          problem_index = dict_get entry ''problem_index'' (JInt 0)
      in BS @ ''subsection*{Problem '' @ show_nat (i + 1) @ '' (Paper: '' @ paper_id
         @ '', Index: '' @ py_format ct problem_index @ '')}'' @ NL @ NL)"

text \<open>One pass of the loop of \<open>generate_critiques_section\<close>, for the record at position \<open>i\<close>.\<close>

definition render_entry :: "(json \<Rightarrow> string) \<Rightarrow> nat \<Rightarrow> json \<Rightarrow> error + string" where
  "render_entry ct i critique_entry =
     (case critique_entry of
        JObj entry \<Rightarrow>
          bind_e (py_get (dict_get entry ''original_problem'' (JObj [])) ''problem_statement''
                    (JStr ''No problem statement'')) (\<lambda>problem_statement.
          bind_e (py_get (dict_get entry ''original_problem'' (JObj [])) ''final_solution''
                    (JStr ''No solution'')) (\<lambda>final_solution.
          bind_e (solution_block final_solution) (\<lambda>sol.
          let critiques = dict_get entry ''critiques'' (JObj []) in
          bind_e (critique_block ct critiques ''self_containment'' ''Self-Containment Critique:'') (\<lambda>c1.
          bind_e (critique_block ct critiques ''difficulty'' ''Difficulty Critique:'') (\<lambda>c2.
          bind_e (critique_block ct critiques ''useful_derivation'' ''Useful Derivation Critique:'') (\<lambda>c3.
          bind_e (outcome_section ct entry) (\<lambda>outcome.
            Inr (entry_heading ct i entry
                 @ BS @ ''subsubsection*{Original Problem Statement}'' @ NL
                 @ py_format ct problem_statement @ NL @ NL
                 @ BS @ ''subsubsection*{Original Solution}'' @ NL
                 @ sol
                 @ BS @ ''subsubsection*{Critiques}'' @ NL
                 @ c1 @ c2 @ c3
                 @ outcome
                 @ BS @ ''newpage'' @ NL))))))))
      | _ \<Rightarrow> Inl AttributeError)"

fun render_entries :: "(json \<Rightarrow> string) \<Rightarrow> nat \<Rightarrow> json list \<Rightarrow> error + string" where
  "render_entries ct i [] = Inr []"
| "render_entries ct i (e # es) =
     bind_e (render_entry ct i e) (\<lambda>tex.
     bind_e (render_entries ct (Suc i) es) (\<lambda>more. Inr (tex @ more)))"

definition generate_critiques_section :: "(json \<Rightarrow> string) \<Rightarrow> json \<Rightarrow> error + string" where
  "generate_critiques_section ct critiques_data =
     bind_e (py_iter critiques_data) (\<lambda>entries.
     bind_e (render_entries ct 0 entries) (\<lambda>body.
       Inr (BS @ ''section*{Problem Details}'' @ NL @ NL @ body)))"

section \<open>Document Assembler\<close>

text \<open>
  The part of the file system and of the terminal that \<open>export_critiques_to_tex\<close> touches:
  what is at a path, whether a path can be opened for writing, and the lines printed so far.
  \<open>json.load\<close> is the parameter \<open>load\<close>, with \<open>None\<close> where it raises.
\<close>

datatype node = File string | Dir

record world =
  nodes :: "string \<Rightarrow> node option"
  writable :: "string \<Rightarrow> bool"
  stdout :: "string list"

definition TEX_TEMPLATE_HEADER :: string where
  "TEX_TEMPLATE_HEADER =
     NL @ BS @ ''documentclass[10pt]{article}'' @ NL @ BS @
     ''usepackage[utf8]{inputenc}'' @ NL @ BS @ ''usepackage{amsmath}'' @ NL @ BS @
     ''usepackage{amssymb}'' @ NL @ BS @ ''usepackage{geometry}'' @ NL @ BS @
     ''usepackage{xcolor}'' @ NL @ BS @ ''usepackage{longtable}'' @ NL @ BS @
     ''usepackage{array}'' @ NL @ BS @ ''usepackage{lmodern}'' @ NL @ NL @ BS @
     ''geometry{a4paper, margin=1in}'' @ NL @ NL @ BS @
     ''definecolor{pass}{HTML}{28a745}'' @ NL @ BS @
     ''definecolor{fail}{HTML}{DC3545}'' @ NL @ NL @ BS @
     ''title{Problem Refinement Critiques Report}'' @ NL @ BS @
     ''author{Generated by script}'' @ NL @ BS @ ''date{'' @ BS @ ''today}'' @ NL @
     NL @ BS @ ''begin{document}'' @ NL @ BS @ ''maketitle'' @ NL"

definition TEX_TEMPLATE_FOOTER :: string where
  "TEX_TEMPLATE_FOOTER = NL @ BS @ ''end{document}'' @ NL"

definition os_path_exists :: "world \<Rightarrow> string \<Rightarrow> bool" where
  "os_path_exists w path = (nodes w path \<noteq> None)"

definition read_text :: "world \<Rightarrow> string \<Rightarrow> error + string" where
  "read_text w path =
     (case nodes w path of
        Some (File content) \<Rightarrow> Inr content
      | Some Dir \<Rightarrow> Inl IsADirectoryError
      | None \<Rightarrow> Inl OSError)"

definition not_found_message :: "string \<Rightarrow> string" where
  "not_found_message critiques_file =
     ''Error: Critiques file not found at '' @ [CHR 0x27] @ critiques_file @ [CHR 0x27]"

definition success_messages :: "string \<Rightarrow> string list" where
  "success_messages output_tex_file =
     [''LaTeX critiques report successfully generated at '' @ [CHR 0x27] @ output_tex_file @ [CHR 0x27],
      ''You can now compile this file using a LaTeX distribution (like pdflatex) to create a PDF.'']"

definition final_tex :: "(json \<Rightarrow> string) \<Rightarrow> json \<Rightarrow> error + string" where
  "final_tex ct data =
     bind_e (generate_summary_table data) (\<lambda>summary_tex.
     bind_e (generate_critiques_section ct data) (\<lambda>critiques_section_tex.
       Inr (TEX_TEMPLATE_HEADER @ summary_tex @ critiques_section_tex @ TEX_TEMPLATE_FOOTER)))"

text \<open>
  The result is the exception that leaves the function, if any, and the world it leaves
  behind.
\<close>

definition export_critiques_to_tex ::
  "(json \<Rightarrow> string) \<Rightarrow> (string \<Rightarrow> json option) \<Rightarrow> string \<Rightarrow> string \<Rightarrow> world \<Rightarrow> error option \<times> world" where
  "export_critiques_to_tex ct load critiques_file output_tex_file w =
     (if \<not> os_path_exists w critiques_file then
        (None, w\<lparr>stdout := stdout w @ [not_found_message critiques_file]\<rparr>)
      else
        (case read_text w critiques_file of
           Inl e \<Rightarrow> (Some e, w)
         | Inr content \<Rightarrow>
             (case load content of
                None \<Rightarrow> (Some JSONDecodeError, w)
              | Some data \<Rightarrow>
                  (case final_tex ct data of
                     Inl e \<Rightarrow> (Some e, w)
                   | Inr tex \<Rightarrow>
                       if writable w output_tex_file then
                         (None, w\<lparr>nodes := (nodes w)(output_tex_file \<mapsto> File tex),
                                   stdout := stdout w @ success_messages output_tex_file\<rparr>)
                       else (Some OSError, w)))))"

section \<open>Auxiliary notions for the statements\<close>

text \<open>Each category's total grows by at most \<open>n\<close> from \<open>st\<close> to \<open>st'\<close>.\<close>

definition totals_within :: "stats \<Rightarrow> stats \<Rightarrow> nat \<Rightarrow> bool" where
  "totals_within st st' n \<longleftrightarrow>
     sc_pass st' + sc_fail st' \<le> sc_pass st + sc_fail st + n
     \<and> diff_pass st' + diff_fail st' + diff_removed st' \<le> diff_pass st + diff_fail st + diff_removed st + n
     \<and> ud_pass st' + ud_fail st' + ud_removed st' \<le> ud_pass st + ud_fail st + ud_removed st + n"

text \<open>
  The shape of a critique record in the data model, every field optional: the record is
  an object, \<open>original_problem\<close> an object whose \<open>final_solution\<close> is a string,
  \<open>critiques\<close> a mapping, the \<open>issues\<close> of a critique object without \<open>error\<close> a list of
  objects (or empty), and the solution of a refined-problem object without \<open>error\<close> a string.
\<close>

fun is_str :: "json \<Rightarrow> bool" where
  "is_str (JStr s) = True"
| "is_str v = False"

definition issues_ok :: "json \<Rightarrow> bool" where
  "issues_ok issues =
     (\<not> truthy issues \<or> (case issues of JArr xs \<Rightarrow> list_all is_dict xs | _ \<Rightarrow> False))"

definition critique_ok :: "json \<Rightarrow> bool" where
  "critique_ok v =
     (case v of
        JObj d \<Rightarrow> has_key d ''error'' \<or> issues_ok (dict_get d ''issues'' (JArr []))
      | _ \<Rightarrow> True)"

definition refined_ok :: "json \<Rightarrow> bool" where
  "refined_ok v =
     (case v of
        JObj r \<Rightarrow>
          has_key r ''error''
          \<or> is_str (dict_get r (if has_key r ''final_solution'' then ''final_solution'' else ''answer'')
                      (JStr ''No solution''))
      | _ \<Rightarrow> True)"

definition well_shaped :: "json \<Rightarrow> bool" where
  "well_shaped critique_entry =
     (case critique_entry of
        JObj entry \<Rightarrow>
          (case dict_get entry ''original_problem'' (JObj []) of
             JObj original \<Rightarrow> is_str (dict_get original ''final_solution'' (JStr ''No solution''))
           | _ \<Rightarrow> False)
          \<and> (case dict_get entry ''critiques'' (JObj []) of
                JObj c \<Rightarrow>
                  list_all (\<lambda>k. case map_of c k of None \<Rightarrow> True | Some v \<Rightarrow> critique_ok v)
                    [''self_containment'', ''difficulty'', ''useful_derivation'']
              | _ \<Rightarrow> False)
          \<and> refined_ok (dict_get entry ''refined_problem'' (JObj []))
      | _ \<Rightarrow> False)"

section \<open>Properties\<close>

subsection \<open>Substring test\<close>

lemma str_contains_iff: "str_contains s sub \<longleftrightarrow> (\<exists>p q. s = p @ sub @ q)"
proof (induction s)
  case Nil
  then show ?case by auto
next
  case (Cons c cs)
  show ?case
  proof
    assume "str_contains (c # cs) sub"
    then consider "take (length sub) (c # cs) = sub" | "str_contains cs sub" by auto
    then show "\<exists>p q. c # cs = p @ sub @ q"
    proof cases
      case 1
      then have "c # cs = [] @ sub @ drop (length sub) (c # cs)"
        by (metis append_Nil append_take_drop_id)
      then show ?thesis by blast
    next
      case 2
      then obtain p q where "cs = p @ sub @ q" using Cons.IH by blast
      then have "c # cs = (c # p) @ sub @ q" by simp
      then show ?thesis by blast
    qed
  next
    assume "\<exists>p q. c # cs = p @ sub @ q"
    then obtain p q where pq: "c # cs = p @ sub @ q" by blast
    show "str_contains (c # cs) sub"
    proof (cases p)
      case Nil
      with pq have "take (length sub) (c # cs) = sub" by simp
      then show ?thesis by simp
    next
      case (Cons a p')
      with pq have "cs = p' @ sub @ q" by simp
      then have "str_contains cs sub" using Cons.IH by blast
      then show ?thesis by simp
    qed
  qed
qed

subsection \<open>Text Escaper\<close>

text \<open>
  C5: on a string, every occurrence of one of the characters \<open>& % $ # _ { }\<close>, wherever it
  stands, is replaced by a backslash followed by that character, and every other character
  is kept as it is; on a value that is not a string the result is the empty string.
\<close>

theorem escape_latex_marks_reserved:
  "escape_latex (JStr []) = []
   \<and> escape_latex (JStr (xs @ c # ys)) =
       escape_latex (JStr xs) @ (if c \<in> set ''&%$#_{}'' then [CHR 0x5C, c] else [c]) @ escape_latex (JStr ys)
   \<and> ((\<forall>s. v \<noteq> JStr s) \<longrightarrow> escape_latex v = [])"
  by (cases v) (simp_all add: reserved_def)

theorem escape_latex_marks_reserved_witness:
  "escape_latex (JStr ''a&b_c'') = ''a'' @ BS @ ''&b'' @ BS @ ''_c'' \<and> escape_latex (JInt 3) = []"
  using escape_latex_marks_reserved [of "''a''" "CHR ''&''" "''b_c''" "JInt 3"]
  by (simp add: reserved_def)

subsection \<open>Brace repair\<close>

text \<open>
  C7: a solution string that contains \<open>\boxed{\<close> and has more opening than closing braces
  gets exactly the missing number of closing braces appended, after which both counts are
  equal; any other string is left unchanged.
\<close>

theorem repair_boxed_balances:
  "((\<exists>p q. s = p @ BS @ ''boxed{'' @ q) \<and> count_list s CHR ''}'' < count_list s CHR ''{''
      \<longrightarrow> repair_boxed s = s @ replicate (count_list s CHR ''{'' - count_list s CHR ''}'') CHR ''}''
          \<and> count_list (repair_boxed s) CHR ''{'' = count_list (repair_boxed s) CHR ''}'')
   \<and> (\<not> ((\<exists>p q. s = p @ BS @ ''boxed{'' @ q) \<and> count_list s CHR ''}'' < count_list s CHR ''{'')
      \<longrightarrow> repair_boxed s = s)"
proof -
  have c: "str_contains s (BS @ ''boxed{'') \<longleftrightarrow> (\<exists>p q. s = p @ BS @ ''boxed{'' @ q)"
    using str_contains_iff [of s "BS @ ''boxed{''"] by simp
  have r: "count_list (replicate n CHR ''}'') CHR ''}'' = n"
          "count_list (replicate n CHR ''}'') CHR ''{'' = 0" for n
    by (induction n) simp_all
  show ?thesis
    unfolding repair_boxed_def c Let_def by (simp add: r)
qed

theorem repair_boxed_balances_witness:
  "repair_boxed (BS @ ''boxed{{a}'') = BS @ ''boxed{{a}}'' \<and> repair_boxed ''{x'' = ''{x''"
  using repair_boxed_balances [of "BS @ ''boxed{{a}''"] repair_boxed_balances [of "''{x''"]
  by (simp add: repair_boxed_def)

subsection \<open>Summary Tabulator: one record\<close>

lemma bind_e_simps [simp]:
  "bind_e (Inl e) f = Inl e" "bind_e (Inr x) f = f x"
  by (simp_all add: bind_e_def)

lemma category_dict_JObj:
  "category_dict (JObj c) k = Inr (case map_of c k of Some (JObj d) \<Rightarrow> Some d | _ \<Rightarrow> None)"
proof (cases "map_of c k")
  case None
  then show ?thesis by (simp add: category_dict_def has_key_def)
next
  case (Some v)
  then show ?thesis by (cases v) (simp_all add: category_dict_def has_key_def)
qed

lemma tally_entry_JObj:
  assumes "dict_get entry ''critiques'' (JObj []) = JObj c"
  shows "tally_entry st (JObj entry) =
     Inr (let is_removed = truthy (dict_get entry ''removed'' (JBool False));
              st1 = (case map_of c ''self_containment'' of
                       Some (JObj d) \<Rightarrow> count_self_containment st d | _ \<Rightarrow> st);
              st2 = (case map_of c ''difficulty'' of
                       Some (JObj d) \<Rightarrow> count_difficulty is_removed st1 d | _ \<Rightarrow> st1);
              st3 = (case map_of c ''useful_derivation'' of
                       Some (JObj d) \<Rightarrow> count_useful_derivation is_removed st2 d | _ \<Rightarrow> st2)
          in count_refinement is_removed st3 entry)"
proof -
  have opt: "(case (case m of Some (JObj d) \<Rightarrow> Some d | _ \<Rightarrow> None) of Some c \<Rightarrow> f c | None \<Rightarrow> z)
             = (case m of Some (JObj d) \<Rightarrow> f d | _ \<Rightarrow> z)" for m :: "json option" and f :: "(string \<times> json) list \<Rightarrow> stats" and z
    by (cases m; simp) (cases "the m"; simp)
  show ?thesis
    by (simp only: tally_entry_def json.case assms Let_def category_dict_JObj bind_e_simps opt)
qed

lemma count_self_containment_frame [simp]:
  "diff_pass (count_self_containment st d) = diff_pass st"
  "diff_fail (count_self_containment st d) = diff_fail st"
  "diff_removed (count_self_containment st d) = diff_removed st"
  "ud_pass (count_self_containment st d) = ud_pass st"
  "ud_fail (count_self_containment st d) = ud_fail st"
  "ud_removed (count_self_containment st d) = ud_removed st"
  "ref_success (count_self_containment st d) = ref_success st"
  "ref_fail (count_self_containment st d) = ref_fail st"
  by (simp_all add: count_self_containment_def)

lemma count_difficulty_frame [simp]:
  "sc_pass (count_difficulty r st d) = sc_pass st"
  "sc_fail (count_difficulty r st d) = sc_fail st"
  "ud_pass (count_difficulty r st d) = ud_pass st"
  "ud_fail (count_difficulty r st d) = ud_fail st"
  "ud_removed (count_difficulty r st d) = ud_removed st"
  "ref_success (count_difficulty r st d) = ref_success st"
  "ref_fail (count_difficulty r st d) = ref_fail st"
  by (simp_all add: count_difficulty_def)

lemma count_useful_derivation_frame [simp]:
  "sc_pass (count_useful_derivation r st d) = sc_pass st"
  "sc_fail (count_useful_derivation r st d) = sc_fail st"
  "diff_pass (count_useful_derivation r st d) = diff_pass st"
  "diff_fail (count_useful_derivation r st d) = diff_fail st"
  "diff_removed (count_useful_derivation r st d) = diff_removed st"
  "ref_success (count_useful_derivation r st d) = ref_success st"
  "ref_fail (count_useful_derivation r st d) = ref_fail st"
  by (simp_all add: count_useful_derivation_def)

lemma count_refinement_frame [simp]:
  "sc_pass (count_refinement r st e) = sc_pass st"
  "sc_fail (count_refinement r st e) = sc_fail st"
  "diff_pass (count_refinement r st e) = diff_pass st"
  "diff_fail (count_refinement r st e) = diff_fail st"
  "diff_removed (count_refinement r st e) = diff_removed st"
  "ud_pass (count_refinement r st e) = ud_pass st"
  "ud_fail (count_refinement r st e) = ud_fail st"
  "ud_removed (count_refinement r st e) = ud_removed st"
  by (simp_all add: count_refinement_def Let_def)

text \<open>
  A removed record whose derivation critique carries a true flag is counted as a pass of
  \<open>useful_derivation\<close>, not as removed.
\<close>

theorem removed_useful_counts_as_pass:
  "map_sum id (\<lambda>st. (ud_pass st, ud_fail st, ud_removed st)) (tally_entry stats0
       (JObj [(''removed'', JBool True),
          (''critiques'', JObj [(''useful_derivation'', JObj [(''is_useful_derivation'', JBool True)])])]))
     = Inr (1, 0, 0)"
  by (simp add: tally_entry_def category_dict_def bind_e_def has_key_def
        dict_get_def count_useful_derivation_def count_refinement_def stats0_def)

text \<open>
  C1: for a removed record whose \<open>critiques\<close> mapping holds a
  \<open>useful_derivation\<close> critique object with the flag \<open>is_useful_derivation\<close> present, the
  tabulator increments the category's \<open>removed\<close> counter, and neither pass nor fail, when the
  flag is false; when the flag is true it increments the pass counter instead.
\<close>

theorem useful_derivation_removed_by_flag:
  assumes "map_of entry ''critiques'' = Some (JObj critiques)"
      and "map_of critiques ''useful_derivation'' = Some (JObj c)"
      and "map_of entry ''removed'' = Some removed" and "truthy removed"
      and "map_of c ''is_useful_derivation'' = Some flag"
  shows "\<exists>st'. tally_entry st (JObj entry) = Inr st' \<and>
           (if truthy flag
            then ud_pass st' = ud_pass st + 1 \<and> ud_fail st' = ud_fail st \<and> ud_removed st' = ud_removed st
            else ud_removed st' = ud_removed st + 1 \<and> ud_pass st' = ud_pass st \<and> ud_fail st' = ud_fail st)"
proof -
  have c: "dict_get entry ''critiques'' (JObj []) = JObj critiques"
    using assms(1) by (simp add: dict_get_def)
  have r: "truthy (dict_get entry ''removed'' (JBool False))"
    using assms(3,4) by (simp add: dict_get_def)
  show ?thesis
    unfolding tally_entry_JObj [OF c] Let_def
    using assms(2,5) r
    by (auto simp: count_useful_derivation_def dict_get_def split: option.splits json.splits)
qed

theorem useful_derivation_removed_by_flag_witness:
  "(\<exists>st'. tally_entry stats0 (JObj [(''removed'', JBool True),
       (''critiques'', JObj [(''useful_derivation'', JObj [(''is_useful_derivation'', JBool False)])])]) = Inr st'
      \<and> ud_removed st' = 1 \<and> ud_pass st' = 0 \<and> ud_fail st' = 0)"
  using useful_derivation_removed_by_flag [of
      "[(''removed'', JBool True),
        (''critiques'', JObj [(''useful_derivation'', JObj [(''is_useful_derivation'', JBool False)])])]"
      "[(''useful_derivation'', JObj [(''is_useful_derivation'', JBool False)])]"
      "[(''is_useful_derivation'', JBool False)]" "JBool True" "JBool False" stats0]
  by (simp add: stats0_def)

lemma count_self_containment_total:
  "sc_pass (count_self_containment st d) + sc_fail (count_self_containment st d) = sc_pass st + sc_fail st + 1"
  by (simp add: count_self_containment_def)

lemma count_difficulty_total:
  "diff_pass (count_difficulty r st d) + diff_fail (count_difficulty r st d) + diff_removed (count_difficulty r st d)
     = diff_pass st + diff_fail st + diff_removed st + 1"
  by (simp add: count_difficulty_def)

lemma count_useful_derivation_total:
  "ud_pass (count_useful_derivation r st d) + ud_fail (count_useful_derivation r st d)
     + ud_removed (count_useful_derivation r st d)
     = ud_pass st + ud_fail st + ud_removed st + 1"
  by (simp add: count_useful_derivation_def)

lemma tally_entry_step:
  assumes "tally_entry st e = Inr st'"
  shows "totals_within st st' 1"
proof (cases e)
  case (JObj entry)
  define critiques where "critiques = dict_get entry ''critiques'' (JObj [])"
  define r where "r = truthy (dict_get entry ''removed'' (JBool False))"
  from assms JObj obtain sc where sc: "category_dict critiques ''self_containment'' = Inr sc"
    by (cases "category_dict critiques ''self_containment''")
       (simp_all add: tally_entry_def critiques_def Let_def)
  define st1 where "st1 = (case sc of Some c \<Rightarrow> count_self_containment st c | None \<Rightarrow> st)"
  from assms JObj sc obtain df where df: "category_dict critiques ''difficulty'' = Inr df"
    by (cases "category_dict critiques ''difficulty''")
       (simp_all add: tally_entry_def critiques_def Let_def)
  define st2 where "st2 = (case df of Some c \<Rightarrow> count_difficulty r st1 c | None \<Rightarrow> st1)"
  from assms JObj sc df obtain ud where ud: "category_dict critiques ''useful_derivation'' = Inr ud"
    by (cases "category_dict critiques ''useful_derivation''")
       (simp_all add: tally_entry_def critiques_def Let_def)
  define st3 where "st3 = (case ud of Some c \<Rightarrow> count_useful_derivation r st2 c | None \<Rightarrow> st2)"
  have "tally_entry st e = Inr (count_refinement r st3 entry)"
    unfolding st3_def st2_def st1_def r_def JObj
    using sc df ud
    by (simp add: tally_entry_def critiques_def [symmetric] Let_def)
  with assms have st': "st' = count_refinement r st3 entry"
    by simp
  have a: "sc_pass st1 + sc_fail st1 \<le> sc_pass st + sc_fail st + 1"
    by (cases sc) (simp_all add: st1_def count_self_containment_total)
  have a': "sc_pass st3 = sc_pass st1" "sc_fail st3 = sc_fail st1"
    by (cases ud; cases df; simp add: st3_def st2_def)+
  have b0: "diff_pass st1 = diff_pass st" "diff_fail st1 = diff_fail st" "diff_removed st1 = diff_removed st"
    by (cases sc; simp add: st1_def)+
  have b: "diff_pass st2 + diff_fail st2 + diff_removed st2 \<le> diff_pass st1 + diff_fail st1 + diff_removed st1 + 1"
    by (cases df) (simp_all add: st2_def count_difficulty_total)
  have b': "diff_pass st3 = diff_pass st2" "diff_fail st3 = diff_fail st2" "diff_removed st3 = diff_removed st2"
    by (cases ud; simp add: st3_def)+
  have c0: "ud_pass st2 = ud_pass st" "ud_fail st2 = ud_fail st" "ud_removed st2 = ud_removed st"
    by (cases sc; cases df; simp add: st1_def st2_def)+
  have c: "ud_pass st3 + ud_fail st3 + ud_removed st3 \<le> ud_pass st2 + ud_fail st2 + ud_removed st2 + 1"
    by (cases ud) (simp_all add: st3_def count_useful_derivation_total)
  show ?thesis
    using a a' b0 b b' c0 c by (simp add: totals_within_def st')
next
qed (use assms in \<open>simp_all add: tally_entry_def\<close>)

lemma tally_totals:
  "tally st data = Inr st' \<Longrightarrow> totals_within st st' (length data)"
proof (induction data arbitrary: st)
  case Nil
  then show ?case by (simp add: totals_within_def)
next
  case (Cons e es)
  then obtain st1 where e: "tally_entry st e = Inr st1" and es: "tally st1 es = Inr st'"
    by (cases "tally_entry st e") simp_all
  from tally_entry_step [OF e] Cons.IH [OF es] show ?case
    by (simp add: totals_within_def)
qed

lemma tally_returns:
  "\<forall>e\<in>set data. \<exists>kvs c. e = JObj kvs \<and> dict_get kvs ''critiques'' (JObj []) = JObj c
   \<Longrightarrow> \<exists>st'. tally st data = Inr st'"
proof (induction data arbitrary: st)
  case Nil
  then show ?case by simp
next
  case (Cons e es)
  then obtain kvs c where "e = JObj kvs" "dict_get kvs ''critiques'' (JObj []) = JObj c"
    by auto
  then obtain st1 where "tally_entry st e = Inr st1"
    using tally_entry_JObj [of kvs c st] by simp
  moreover obtain st' where "tally st1 es = Inr st'"
    using Cons.IH [of st1] Cons.prems by auto
  ultimately show ?case by simp
qed

subsection \<open>Refinement counters\<close>

text \<open>
  A record that is not removed and has no \<open>refined_problem\<close> is counted as a refinement
  success.
\<close>

theorem absent_refinement_counts_as_success:
  "map_sum id (\<lambda>st. (ref_success st, ref_fail st)) (tally_entry stats0
       (JObj [(''removed'', JBool False), (''critiques'', JObj [])])) = Inr (1, 0)"
  by (simp add: tally_entry_def category_dict_def has_key_def
        dict_get_def count_refinement_def stats0_def)

text \<open>
  C2: for a record that is not removed, the tabulator counts a refinement
  success when \<open>refined_problem\<close> is absent or is an object without an \<open>error\<close> field, and
  a failure otherwise; a removed record changes neither refinement counter.
\<close>

theorem refinement_counted_by_shape:
  assumes "dict_get entry ''critiques'' (JObj []) = JObj c"
  shows "\<exists>st'. tally_entry st (JObj entry) = Inr st' \<and>
           (if truthy (dict_get entry ''removed'' (JBool False))
            then ref_success st' = ref_success st \<and> ref_fail st' = ref_fail st
            else if (case map_of entry ''refined_problem'' of
                       None \<Rightarrow> True
                     | Some (JObj r) \<Rightarrow> map_of r ''error'' = None
                     | Some _ \<Rightarrow> False)
            then ref_success st' = ref_success st + 1 \<and> ref_fail st' = ref_fail st
            else ref_fail st' = ref_fail st + 1 \<and> ref_success st' = ref_success st)"
proof -
  define r where "r = truthy (dict_get entry ''removed'' (JBool False))"
  have cr: "ref_success (count_refinement b x entry) =
              ref_success x + (if \<not> b \<and> (case map_of entry ''refined_problem'' of
                       None \<Rightarrow> True
                     | Some (JObj r) \<Rightarrow> map_of r ''error'' = None
                     | Some _ \<Rightarrow> False) then 1 else 0)"
           "ref_fail (count_refinement b x entry) =
              ref_fail x + (if \<not> b \<and> \<not> (case map_of entry ''refined_problem'' of
                       None \<Rightarrow> True
                     | Some (JObj r) \<Rightarrow> map_of r ''error'' = None
                     | Some _ \<Rightarrow> False) then 1 else 0)" for x b
    by (auto simp: count_refinement_def dict_get_def has_key_def Let_def
             split: option.splits json.splits)
  have pre: "ref_success x = ref_success st \<and> ref_fail x = ref_fail st"
    if "x = (case m of Some (JObj d) \<Rightarrow> f d | _ \<Rightarrow> y)"
       "ref_success y = ref_success st \<and> ref_fail y = ref_fail st"
       "\<And>d. ref_success (f d) = ref_success y \<and> ref_fail (f d) = ref_fail y"
    for x y :: stats and m f
    using that by (auto split: option.splits json.splits)
  define st1 where "st1 = (case map_of c ''self_containment'' of
                       Some (JObj d) \<Rightarrow> count_self_containment st d | _ \<Rightarrow> st)"
  define st2 where "st2 = (case map_of c ''difficulty'' of
                       Some (JObj d) \<Rightarrow> count_difficulty r st1 d | _ \<Rightarrow> st1)"
  define st3 where "st3 = (case map_of c ''useful_derivation'' of
                       Some (JObj d) \<Rightarrow> count_useful_derivation r st2 d | _ \<Rightarrow> st2)"
  have 1: "ref_success st1 = ref_success st \<and> ref_fail st1 = ref_fail st"
    by (rule pre [OF st1_def]) simp_all
  have 2: "ref_success st2 = ref_success st \<and> ref_fail st2 = ref_fail st"
    by (rule pre [OF st2_def]) (simp_all add: 1)
  have 3: "ref_success st3 = ref_success st \<and> ref_fail st3 = ref_fail st"
    by (rule pre [OF st3_def]) (simp_all add: 2)
  have t: "tally_entry st (JObj entry) = Inr (count_refinement r st3 entry)"
    unfolding tally_entry_JObj [OF assms] Let_def st3_def st2_def st1_def r_def ..
  show ?thesis
    unfolding t r_def [symmetric] by (simp add: cr 3)
qed

theorem refinement_counted_by_shape_witness:
  "(\<exists>st'. tally_entry stats0 (JObj [(''refined_problem'', JObj [(''error'', JStr ''x'')])]) = Inr st'
      \<and> ref_fail st' = 1 \<and> ref_success st' = 0)"
  using refinement_counted_by_shape [of "[(''refined_problem'', JObj [(''error'', JStr ''x'')])]" "[]" stats0]
  by (simp add: stats0_def dict_get_def)

subsection \<open>Category totals\<close>

text \<open>
  C10: a record whose \<open>critiques\<close> mapping has no critique object under a category (the key
  is missing or its value is not an object) leaves that category's counters as they were;
  and whatever the list of records, each category's pass + fail + removed total is at most
  the number of records. The tabulator does return the totals when every record is an object
  whose \<open>critiques\<close> is a mapping.
\<close>

theorem category_totals_bounded:
  "(dict_get entry ''critiques'' (JObj []) = JObj c \<longrightarrow>
      (\<exists>st'. tally_entry st (JObj entry) = Inr st'
         \<and> ((\<forall>d. map_of c ''self_containment'' \<noteq> Some (JObj d)) \<longrightarrow>
                sc_pass st' = sc_pass st \<and> sc_fail st' = sc_fail st)
         \<and> ((\<forall>d. map_of c ''difficulty'' \<noteq> Some (JObj d)) \<longrightarrow>
                diff_pass st' = diff_pass st \<and> diff_fail st' = diff_fail st
                \<and> diff_removed st' = diff_removed st)
         \<and> ((\<forall>d. map_of c ''useful_derivation'' \<noteq> Some (JObj d)) \<longrightarrow>
                ud_pass st' = ud_pass st \<and> ud_fail st' = ud_fail st
                \<and> ud_removed st' = ud_removed st)))
   \<and> (tally stats0 critiques_data = Inr final \<longrightarrow>
        sc_pass final + sc_fail final \<le> length critiques_data
        \<and> diff_pass final + diff_fail final + diff_removed final \<le> length critiques_data
        \<and> ud_pass final + ud_fail final + ud_removed final \<le> length critiques_data)
   \<and> ((\<forall>e\<in>set critiques_data. \<exists>kvs c. e = JObj kvs \<and> dict_get kvs ''critiques'' (JObj []) = JObj c)
        \<longrightarrow> (\<exists>final. tally stats0 critiques_data = Inr final))"
proof -
  have p1: "\<exists>st'. tally_entry st (JObj entry) = Inr st'
         \<and> ((\<forall>d. map_of c ''self_containment'' \<noteq> Some (JObj d)) \<longrightarrow>
                sc_pass st' = sc_pass st \<and> sc_fail st' = sc_fail st)
         \<and> ((\<forall>d. map_of c ''difficulty'' \<noteq> Some (JObj d)) \<longrightarrow>
                diff_pass st' = diff_pass st \<and> diff_fail st' = diff_fail st
                \<and> diff_removed st' = diff_removed st)
         \<and> ((\<forall>d. map_of c ''useful_derivation'' \<noteq> Some (JObj d)) \<longrightarrow>
                ud_pass st' = ud_pass st \<and> ud_fail st' = ud_fail st
                \<and> ud_removed st' = ud_removed st)"
    if a: "dict_get entry ''critiques'' (JObj []) = JObj c"
  proof -
    define r where "r = truthy (dict_get entry ''removed'' (JBool False))"
    define st1 where "st1 = (case map_of c ''self_containment'' of
                         Some (JObj d) \<Rightarrow> count_self_containment st d | _ \<Rightarrow> st)"
    define st2 where "st2 = (case map_of c ''difficulty'' of
                         Some (JObj d) \<Rightarrow> count_difficulty r st1 d | _ \<Rightarrow> st1)"
    define st3 where "st3 = (case map_of c ''useful_derivation'' of
                         Some (JObj d) \<Rightarrow> count_useful_derivation r st2 d | _ \<Rightarrow> st2)"
    have t: "tally_entry st (JObj entry) = Inr (count_refinement r st3 entry)"
      unfolding tally_entry_JObj [OF a] Let_def st3_def st2_def st1_def r_def ..
    have keep: "x = y" if "x = (case m of Some (JObj d) \<Rightarrow> f d | _ \<Rightarrow> y)" "\<forall>d. m \<noteq> Some (JObj d)"
      for m :: "json option" and f :: "(string \<times> json) list \<Rightarrow> stats" and x y
      using that by (auto split: option.splits json.splits)
    have sel: "g x = g y" if "x = (case m of Some (JObj d) \<Rightarrow> f d | _ \<Rightarrow> y)" "\<And>d. g (f d) = g y"
      for m :: "json option" and f :: "(string \<times> json) list \<Rightarrow> stats" and x y and g :: "stats \<Rightarrow> nat"
      using that by (auto split: option.splits json.splits)
    have sc: "sc_pass st3 = sc_pass st1" "sc_fail st3 = sc_fail st1"
      using sel [OF st3_def, of sc_pass] sel [OF st2_def, of sc_pass]
            sel [OF st3_def, of sc_fail] sel [OF st2_def, of sc_fail] by simp_all
    have df1: "diff_pass st1 = diff_pass st" "diff_fail st1 = diff_fail st" "diff_removed st1 = diff_removed st"
      using sel [OF st1_def, of diff_pass] sel [OF st1_def, of diff_fail] sel [OF st1_def, of diff_removed]
      by simp_all
    have df3: "diff_pass st3 = diff_pass st2" "diff_fail st3 = diff_fail st2" "diff_removed st3 = diff_removed st2"
      using sel [OF st3_def, of diff_pass] sel [OF st3_def, of diff_fail] sel [OF st3_def, of diff_removed]
      by simp_all
    have ud2: "ud_pass st2 = ud_pass st" "ud_fail st2 = ud_fail st" "ud_removed st2 = ud_removed st"
      using sel [OF st1_def, of ud_pass] sel [OF st1_def, of ud_fail] sel [OF st1_def, of ud_removed]
            sel [OF st2_def, of ud_pass] sel [OF st2_def, of ud_fail] sel [OF st2_def, of ud_removed]
      by simp_all
    show ?thesis
      unfolding t
      using keep [OF st1_def] keep [OF st2_def] keep [OF st3_def] sc df1 df3 ud2
      by simp
  qed
  have p2: "sc_pass final + sc_fail final \<le> length critiques_data
        \<and> diff_pass final + diff_fail final + diff_removed final \<le> length critiques_data
        \<and> ud_pass final + ud_fail final + ud_removed final \<le> length critiques_data"
    if "tally stats0 critiques_data = Inr final"
    using tally_totals [OF that] by (simp add: totals_within_def stats0_def)
  have p3: "\<exists>final. tally stats0 critiques_data = Inr final"
    if "\<forall>e\<in>set critiques_data. \<exists>kvs c. e = JObj kvs \<and> dict_get kvs ''critiques'' (JObj []) = JObj c"
    using that by (rule tally_returns)
  from p1 p2 p3 show ?thesis by blast
qed

theorem category_totals_bounded_witness:
  "(\<exists>st'. tally_entry stats0 (JObj [(''critiques'', JObj [(''difficulty'', JStr ''n/a'')])]) = Inr st'
       \<and> sc_pass st' = 0 \<and> sc_fail st' = 0
       \<and> diff_pass st' = 0 \<and> diff_fail st' = 0 \<and> diff_removed st' = 0
       \<and> ud_pass st' = 0 \<and> ud_fail st' = 0 \<and> ud_removed st' = 0)
   \<and> (\<exists>final. tally stats0 [JObj [(''critiques'', JObj [(''difficulty'', JStr ''n/a'')])], JObj []] = Inr final
        \<and> sc_pass final + sc_fail final \<le> 2
        \<and> diff_pass final + diff_fail final + diff_removed final \<le> 2
        \<and> ud_pass final + ud_fail final + ud_removed final \<le> 2)"
proof -
  let ?e = "[(''critiques'', JObj [(''difficulty'', JStr ''n/a'')])]"
  let ?data = "[JObj ?e, JObj []]"
  have shape: "\<forall>e\<in>set ?data. \<exists>kvs c. e = JObj kvs \<and> dict_get kvs ''critiques'' (JObj []) = JObj c"
    by (simp add: dict_get_def)
  have crit: "dict_get ?e ''critiques'' (JObj []) = JObj [(''difficulty'', JStr ''n/a'')]"
    by (simp add: dict_get_def)
  note th = category_totals_bounded [where entry = ?e and c = "[(''difficulty'', JStr ''n/a'')]"
              and st = stats0 and critiques_data = ?data]
  from th shape obtain final where f: "tally stats0 ?data = Inr final"
    by blast
  from th [where final = final] f
  have b: "sc_pass final + sc_fail final \<le> 2
        \<and> diff_pass final + diff_fail final + diff_removed final \<le> 2
        \<and> ud_pass final + ud_fail final + ud_removed final \<le> 2"
    by simp
  from th [where final = final] crit
  obtain st' where "tally_entry stats0 (JObj ?e) = Inr st'"
      "sc_pass st' = sc_pass stats0 \<and> sc_fail st' = sc_fail stats0"
      "diff_pass st' = diff_pass stats0 \<and> diff_fail st' = diff_fail stats0
         \<and> diff_removed st' = diff_removed stats0"
      "ud_pass st' = ud_pass stats0 \<and> ud_fail st' = ud_fail stats0 \<and> ud_removed st' = ud_removed stats0"
    by auto
  then have a: "\<exists>st'. tally_entry stats0 (JObj ?e) = Inr st'
       \<and> sc_pass st' = 0 \<and> sc_fail st' = 0
       \<and> diff_pass st' = 0 \<and> diff_fail st' = 0 \<and> diff_removed st' = 0
       \<and> ud_pass st' = 0 \<and> ud_fail st' = 0 \<and> ud_removed st' = 0"
    by (simp add: stats0_def)
  from a f b show ?thesis by blast
qed

subsection \<open>Math-Block Formatter\<close>

lemma last_dropWhile_keep:
  "xs \<noteq> [] \<Longrightarrow> \<not> P (last xs) \<Longrightarrow> dropWhile P xs \<noteq> [] \<and> last (dropWhile P xs) = last xs"
  by (induction xs) (auto split: if_splits)

lemma strip_stripped:
  "strip s = [] \<or> (\<not> is_space (hd (strip s)) \<and> \<not> is_space (last (strip s)))"
proof (cases "dropWhile is_space s = []")
  case True
  have "strip s = []" unfolding strip_def True by simp
  then show ?thesis by simp
next
  case False
  define u where "u = dropWhile is_space s"
  define v where "v = dropWhile is_space (rev u)"
  have u: "u \<noteq> []" "\<not> is_space (hd u)"
    using False hd_dropWhile [of is_space s] by (simp_all add: u_def)
  then have "rev u \<noteq> []" "\<not> is_space (last (rev u))"
    by (simp_all add: last_rev)
  from last_dropWhile_keep [of "rev u" is_space, OF this] have v: "v \<noteq> []" "last v = hd u"
    using u by (simp_all add: v_def last_rev)
  have hv: "\<not> is_space (hd v)"
    using v(1) hd_dropWhile [of is_space "rev u"] by (simp add: v_def)
  have "strip s = rev v" by (simp add: strip_def u_def v_def)
  with v hv u show ?thesis by (simp add: hd_rev last_rev)
qed

lemma strip_id:
  assumes "t = [] \<or> (\<not> is_space (hd t) \<and> \<not> is_space (last t))"
  shows "strip t = t"
proof (cases t)
  case Nil
  then show ?thesis by (simp add: strip_def)
next
  case (Cons a as)
  with assms have 1: "dropWhile is_space t = t" by simp
  from Cons have ne: "t \<noteq> []" by simp
  with assms have "rev t \<noteq> []" "\<not> is_space (hd (rev t))" by (simp_all add: hd_rev)
  then have "dropWhile is_space (rev t) = rev t" by (cases "rev t") simp_all
  with 1 show ?thesis by (simp add: strip_def)
qed

lemma strip_padded:
  assumes "t = [] \<or> (\<not> is_space (hd t) \<and> \<not> is_space (last t))"
  shows "strip ('' '' @ t @ '' '') = t"
proof (cases t)
  case Nil
  then show ?thesis by (simp add: strip_def is_space_def)
next
  case (Cons a as)
  with assms have a: "\<not> is_space a" by simp
  have sp: "is_space CHR '' ''" by (simp add: is_space_def)
  have 1: "dropWhile is_space ('' '' @ t @ '' '') = t @ '' ''"
    using a sp Cons by simp
  from Cons have ne: "t \<noteq> []" by simp
  with assms have r: "rev t \<noteq> []" "\<not> is_space (hd (rev t))" by (simp_all add: hd_rev)
  then have "dropWhile is_space (rev (t @ '' '')) = rev t"
    using sp by (cases "rev t") simp_all
  with 1 show ?thesis by (simp add: strip_def)
qed

lemma split_three:
  assumes "length a + length b \<le> length t"
  shows "t = take (length a) t @ drop (length a) (take (length t - length b) t) @ drop (length t - length b) t"
proof -
  define n where "n = length t - length b"
  have le: "length a \<le> n" using assms by (simp add: n_def)
  have "take (length a) (take n t) = take (length a) t"
    using le by (simp add: min_def)
  then have "take n t = take (length a) t @ drop (length a) (take n t)"
    using append_take_drop_id [of "length a" "take n t"] by simp
  moreover have "t = take n t @ drop n t" by simp
  ultimately have "t = (take (length a) t @ drop (length a) (take n t)) @ drop n t"
    by simp
  then show ?thesis by (simp add: n_def)
qed

lemma re_sub_wrapped_id:
  assumes st: "t = [] \<or> (\<not> is_space (hd t) \<and> \<not> is_space (last t))"
      and nw: "\<not> (\<exists>m. t = opn @ m @ cls)"
  shows "re_sub_wrapped opn cls t = t"
proof -
  have nl: "is_space (CHR 0x0A)" by (simp add: is_space_def)
  have body: "(if t \<noteq> [] \<and> last t = CHR 0x0A then butlast t else t) = t"
    using st nl by auto
  have "\<not> (length opn + length cls \<le> length t \<and> take (length opn) t = opn
            \<and> drop (length t - length cls) t = cls)"
  proof
    assume h: "length opn + length cls \<le> length t \<and> take (length opn) t = opn
            \<and> drop (length t - length cls) t = cls"
    then have "t = opn @ drop (length opn) (take (length t - length cls) t) @ cls"
      using split_three [of opn cls t] by simp
    with nw show False by blast
  qed
  then show ?thesis
    unfolding re_sub_wrapped_def body Let_def by auto
qed

lemma re_sub_wrapped_block:
  assumes "CHR 0x0A \<notin> set t"
  shows "re_sub_wrapped (BS @ ''['') (BS @ '']'') (BS @ ''[ '' @ t @ '' '' @ BS @ '']'') = '' '' @ t @ '' ''"
  using assms by (simp add: re_sub_wrapped_def Let_def)

lemma unwrap_delimiters_stripped:
  "unwrap_delimiters s = [] \<or> (\<not> is_space (hd (unwrap_delimiters s)) \<and> \<not> is_space (last (unwrap_delimiters s)))"
  unfolding unwrap_delimiters_def Let_def by (rule strip_stripped)

text \<open>
  A block whose content carries two further delimiter layers loses one layer at each
  application: the second application does not return the first one's result.
\<close>

theorem nested_delimiters_not_idempotent:
  "format_tex_display_math (JStr (format_tex_display_math
       (JStr (BS @ ''[$'' @ BS @ ''(x'' @ BS @ '')$'' @ BS @ '']''))))
   \<noteq> format_tex_display_math (JStr (BS @ ''[$'' @ BS @ ''(x'' @ BS @ '')$'' @ BS @ '']''))"
  by code_simp

text \<open>
  \<open>.\<close> does not match a line feed, so the delimiters of a block that spans two lines are
  not removed and the block is wrapped once more.
\<close>

theorem multiline_block_wrapped_twice:
  "format_tex_display_math (JStr (BS @ ''[a'' @ NL @ ''b'' @ BS @ '']''))
     = BS @ ''[ '' @ BS @ ''[a'' @ NL @ ''b'' @ BS @ '']'' @ '' '' @ BS @ '']''"
  by code_simp

text \<open>
  C6: when the text that the formatter puts between its delimiters has no line
  feed and is not itself enclosed in \<open>\(...\)\<close> or \<open>$...$\<close>, applying the formatter to its
  own output yields the same block.
\<close>

theorem format_idempotent_on_plain_content:
  assumes nl: "CHR 0x0A \<notin> set (unwrap_delimiters s)"
      and np: "\<not> (\<exists>m. unwrap_delimiters s = BS @ ''('' @ m @ BS @ '')'')"
      and nd: "\<not> (\<exists>m. unwrap_delimiters s = ''$'' @ m @ ''$'')"
  shows "format_tex_display_math (JStr (format_tex_display_math (JStr s)))
           = format_tex_display_math (JStr s)"
proof -
  define t where "t = unwrap_delimiters s"
  have st: "t = [] \<or> (\<not> is_space (hd t) \<and> \<not> is_space (last t))"
    unfolding t_def by (rule unwrap_delimiters_stripped)
  define F where "F = BS @ ''[ '' @ t @ '' '' @ BS @ '']''"
  have F: "format_tex_display_math (JStr s) = F"
    by (simp add: F_def t_def)
  have "F = [] \<or> (\<not> is_space (hd F) \<and> \<not> is_space (last F))"
    by (simp add: F_def is_space_def)
  then have 0: "strip F = F" by (rule strip_id)
  have 1: "strip (re_sub_wrapped (BS @ ''['') (BS @ '']'') F) = t"
    unfolding F_def using nl re_sub_wrapped_block [of t] strip_padded [OF st]
    by (simp add: t_def)
  have 2: "strip (re_sub_wrapped (BS @ ''('') (BS @ '')'') t) = t"
    using re_sub_wrapped_id [OF st, of "BS @ ''(''" "BS @ '')''"] np strip_id [OF st]
    by (simp add: t_def)
  have nd2: "\<not> (\<exists>m. t = ''$$'' @ m @ ''$$'')"
  proof
    assume "\<exists>m. t = ''$$'' @ m @ ''$$''"
    then obtain m where "t = ''$$'' @ m @ ''$$''" by blast
    then have "t = ''$'' @ (''$'' @ m @ ''$'') @ ''$''" by simp
    with nd show False unfolding t_def by blast
  qed
  have 3: "strip (re_sub_wrapped ''$$'' ''$$'' t) = t"
    using re_sub_wrapped_id [OF st nd2] strip_id [OF st] by simp
  have 4: "strip (re_sub_wrapped ''$'' ''$'' t) = t"
    using re_sub_wrapped_id [OF st, of "''$''" "''$''"] nd strip_id [OF st]
    by (simp add: t_def)
  have "unwrap_delimiters F = t"
    unfolding unwrap_delimiters_def Let_def 0 1 2 3 4 ..
  then show ?thesis
    unfolding F by (simp add: F_def)
qed

theorem format_idempotent_on_plain_content_witness:
  "format_tex_display_math (JStr (format_tex_display_math (JStr (BS @ ''[x=1'' @ BS @ '']''))))
     = format_tex_display_math (JStr (BS @ ''[x=1'' @ BS @ '']''))
   \<and> format_tex_display_math (JStr (BS @ ''[x=1'' @ BS @ '']'')) = BS @ ''[ x=1 '' @ BS @ '']''"
proof -
  have u: "unwrap_delimiters (BS @ ''[x=1'' @ BS @ '']'') = ''x=1''"
    by code_simp
  have "format_tex_display_math (JStr (format_tex_display_math (JStr (BS @ ''[x=1'' @ BS @ '']''))))
     = format_tex_display_math (JStr (BS @ ''[x=1'' @ BS @ '']''))"
    by (rule format_idempotent_on_plain_content) (simp_all add: u [simplified])
  then show ?thesis by (simp add: u [simplified])
qed

subsection \<open>Record Renderer\<close>

lemma solution_block_str:
  "solution_block (JStr s) = Inr (format_tex_display_math (JStr (repair_boxed s)) @ NL @ NL)"
  by (simp add: solution_block_def)

lemma issue_items_returns:
  "list_all is_dict xs \<Longrightarrow> \<exists>items. issue_items ct xs = Inr items"
proof (induction xs)
  case Nil
  then show ?case by simp
next
  case (Cons x xs)
  then obtain d where x: "x = JObj d" by (cases x) simp_all
  from Cons obtain more where "issue_items ct xs = Inr more" by auto
  with x show ?case by simp
qed

lemma format_critique_section_returns:
  assumes "critique_ok v"
  shows "\<exists>tex. format_critique_section ct k v = Inr tex"
proof (cases v)
  case (JObj d)
  show ?thesis
  proof (cases "has_key d ''error''")
    case True
    with JObj show ?thesis by (simp add: format_critique_section_def)
  next
    case False
    with assms JObj have ok: "issues_ok (dict_get d ''issues'' (JArr []))"
      by (simp add: critique_ok_def)
    show ?thesis
    proof (cases "truthy (dict_get d ''issues'' (JArr []))")
      case f: False
      with JObj False show ?thesis
        by (simp add: format_critique_section_def Let_def split: prod.splits)
    next
      case t: True
      with ok obtain xs where xs: "dict_get d ''issues'' (JArr []) = JArr xs" "list_all is_dict xs"
        by (cases "dict_get d ''issues'' (JArr [])") (simp_all add: issues_ok_def)
      from issue_items_returns [OF xs(2)] obtain items where "issue_items ct xs = Inr items"
        by blast
      with JObj False t xs show ?thesis
        by (simp add: format_critique_section_def Let_def split: prod.splits)
    qed
  qed
qed (simp_all add: format_critique_section_def)

lemma critique_block_returns:
  assumes "case map_of c k of None \<Rightarrow> True | Some v \<Rightarrow> critique_ok v"
  shows "\<exists>tex. critique_block ct (JObj c) k heading = Inr tex"
proof (cases "map_of c k")
  case None
  then show ?thesis by (simp add: critique_block_def has_key_def)
next
  case (Some v)
  with assms have "critique_ok v" by simp
  from format_critique_section_returns [OF this] obtain tex
    where "format_critique_section ct k v = Inr tex" by blast
  with Some show ?thesis by (simp add: critique_block_def has_key_def)
qed

lemma refined_body_returns:
  assumes "refined_ok v"
  shows "\<exists>body. refined_body ct v = Inr body"
proof (cases v)
  case (JObj r)
  show ?thesis
  proof (cases "has_key r ''error''")
    case True
    with JObj show ?thesis by (simp add: refined_body_def)
  next
    case False
    with assms JObj obtain s where
      "dict_get r (if has_key r ''final_solution'' then ''final_solution'' else ''answer'')
         (JStr ''No solution'') = JStr s"
      by (cases "dict_get r (if has_key r ''final_solution'' then ''final_solution'' else ''answer'')
         (JStr ''No solution'')") (simp_all add: refined_ok_def)
    with JObj False show ?thesis
      by (simp add: refined_body_def Let_def solution_block_str)
  qed
qed (simp_all add: refined_body_def)

lemma outcome_section_returns:
  assumes "refined_ok (dict_get entry ''refined_problem'' (JObj []))"
  shows "\<exists>tex. outcome_section ct entry = Inr tex"
proof -
  from refined_body_returns [OF assms] obtain body
    where "refined_body ct (dict_get entry ''refined_problem'' (JObj [])) = Inr body" by blast
  then show ?thesis by (simp add: outcome_section_def Let_def)
qed

lemma render_entry_parts:
  assumes "well_shaped (JObj entry)"
  shows "\<exists>original s rest.
           dict_get entry ''original_problem'' (JObj []) = JObj original
           \<and> dict_get original ''final_solution'' (JStr ''No solution'') = JStr s
           \<and> render_entry ct i (JObj entry) =
               Inr (entry_heading ct i entry
                    @ BS @ ''subsubsection*{Original Problem Statement}'' @ NL
                    @ py_format ct (dict_get original ''problem_statement'' (JStr ''No problem statement''))
                    @ NL @ NL
                    @ BS @ ''subsubsection*{Original Solution}'' @ NL
                    @ format_tex_display_math (JStr (repair_boxed s)) @ NL @ NL
                    @ BS @ ''subsubsection*{Critiques}'' @ NL
                    @ rest)"
proof -
  from assms obtain original where o: "dict_get entry ''original_problem'' (JObj []) = JObj original"
      and "is_str (dict_get original ''final_solution'' (JStr ''No solution''))"
    by (cases "dict_get entry ''original_problem'' (JObj [])") (simp_all add: well_shaped_def)
  then obtain s where s: "dict_get original ''final_solution'' (JStr ''No solution'') = JStr s"
    by (cases "dict_get original ''final_solution'' (JStr ''No solution'')") simp_all
  from assms obtain c where c: "dict_get entry ''critiques'' (JObj []) = JObj c"
      and cs: "list_all (\<lambda>k. case map_of c k of None \<Rightarrow> True | Some v \<Rightarrow> critique_ok v)
                 [''self_containment'', ''difficulty'', ''useful_derivation'']"
    by (cases "dict_get entry ''critiques'' (JObj [])") (simp_all add: well_shaped_def)
  from cs have k1: "case map_of c ''self_containment'' of None \<Rightarrow> True | Some v \<Rightarrow> critique_ok v"
    and k2: "case map_of c ''difficulty'' of None \<Rightarrow> True | Some v \<Rightarrow> critique_ok v"
    and k3: "case map_of c ''useful_derivation'' of None \<Rightarrow> True | Some v \<Rightarrow> critique_ok v"
    by simp_all
  from critique_block_returns [OF k1] obtain c1
    where c1: "critique_block ct (JObj c) ''self_containment'' ''Self-Containment Critique:'' = Inr c1"
    by blast
  from critique_block_returns [OF k2] obtain c2
    where c2: "critique_block ct (JObj c) ''difficulty'' ''Difficulty Critique:'' = Inr c2"
    by blast
  from critique_block_returns [OF k3] obtain c3
    where c3: "critique_block ct (JObj c) ''useful_derivation'' ''Useful Derivation Critique:'' = Inr c3"
    by blast
  from assms have "refined_ok (dict_get entry ''refined_problem'' (JObj []))"
    by (simp add: well_shaped_def)
  from outcome_section_returns [OF this] obtain out
    where out: "outcome_section ct entry = Inr out" by blast
  have "render_entry ct i (JObj entry) =
               Inr (entry_heading ct i entry
                    @ BS @ ''subsubsection*{Original Problem Statement}'' @ NL
                    @ py_format ct (dict_get original ''problem_statement'' (JStr ''No problem statement''))
                    @ NL @ NL
                    @ BS @ ''subsubsection*{Original Solution}'' @ NL
                    @ format_tex_display_math (JStr (repair_boxed s)) @ NL @ NL
                    @ BS @ ''subsubsection*{Critiques}'' @ NL
                    @ (c1 @ c2 @ c3 @ out @ BS @ ''newpage'' @ NL))"
    unfolding render_entry_def
    by (simp add: o s c c1 c2 c3 out solution_block_str Let_def)
  with o s show ?thesis by blast
qed

lemma render_entry_returns:
  assumes "well_shaped e"
  shows "\<exists>tex. render_entry ct i e = Inr tex"
proof -
  from assms obtain entry where e: "e = JObj entry"
    by (cases e) (simp_all add: well_shaped_def)
  from render_entry_parts [of entry ct i] assms e show ?thesis by blast
qed

lemma render_entries_returns:
  "list_all well_shaped es \<Longrightarrow> \<exists>tex. render_entries ct i es = Inr tex"
proof (induction es arbitrary: i)
  case Nil
  then show ?case by simp
next
  case (Cons e es)
  then obtain tex where "render_entry ct i e = Inr tex"
    using render_entry_returns [of e ct i] by auto
  moreover from Cons obtain more where "render_entries ct (Suc i) es = Inr more"
    by auto
  ultimately show ?case by simp
qed

lemma well_shaped_tally:
  "list_all well_shaped es \<Longrightarrow> \<exists>st'. tally st es = Inr st'"
proof (rule tally_returns, rule ballI)
  fix e assume "list_all well_shaped es" "e \<in> set es"
  then have w: "well_shaped e" by (simp add: list_all_iff)
  then obtain entry where e: "e = JObj entry"
    by (cases e) (simp_all add: well_shaped_def)
  from w e obtain c where "dict_get entry ''critiques'' (JObj []) = JObj c"
    by (cases "dict_get entry ''critiques'' (JObj [])") (simp_all add: well_shaped_def)
  with e show "\<exists>kvs c. e = JObj kvs \<and> dict_get kvs ''critiques'' (JObj []) = JObj c"
    by blast
qed

text \<open>
  Records with a wrong nesting raise: \<open>original_problem\<close> that is a string, a
  \<open>final_solution\<close> that is a number, an issue that is a string (in the renderer), and
  \<open>critiques\<close> that is \<open>null\<close> (in the tabulator).
\<close>

theorem malformed_records_raise:
  "render_entry (\<lambda>v. []) 0 (JObj [(''original_problem'', JStr ''text'')]) = Inl AttributeError
   \<and> render_entry (\<lambda>v. []) 0 (JObj [(''original_problem'', JObj [(''final_solution'', JInt 5)])])
       = Inl TypeError
   \<and> render_entry (\<lambda>v. []) 0
        (JObj [(''critiques'', JObj [(''difficulty'', JObj [(''issues'', JArr [JStr ''vague''])])])])
       = Inl AttributeError
   \<and> generate_summary_table (JArr [JObj [(''critiques'', JNull)]]) = Inl TypeError"
  by (simp add: render_entry_def dict_get_def solution_block_def critique_block_def has_key_def
        format_critique_section_def status_of_def generate_summary_table_def tally_entry_def
        category_dict_def)

text \<open>
  C3: on records of the documented shape, with keys missing in any
  combination, neither the Summary Tabulator nor the Record Renderer raises; a record
  without \<open>original_problem\<close> renders the placeholders \<open>No problem statement\<close> and
  \<open>No solution\<close>, the latter inside the display-math block.
\<close>

theorem well_shaped_records_render:
  "(list_all well_shaped critiques_data \<longrightarrow>
      (\<exists>tex. generate_summary_table (JArr critiques_data) = Inr tex)
      \<and> (\<exists>tex. generate_critiques_section ct (JArr critiques_data) = Inr tex))
   \<and> (well_shaped (JObj entry) \<and> map_of entry ''original_problem'' = None \<longrightarrow>
      (\<exists>rest. render_entry ct i (JObj entry) =
         Inr (entry_heading ct i entry
              @ BS @ ''subsubsection*{Original Problem Statement}'' @ NL
              @ ''No problem statement'' @ NL @ NL
              @ BS @ ''subsubsection*{Original Solution}'' @ NL
              @ BS @ ''[ No solution '' @ BS @ '']'' @ NL @ NL
              @ BS @ ''subsubsection*{Critiques}'' @ NL
              @ rest)))"
proof (intro conjI impI)
  assume w: "list_all well_shaped critiques_data"
  from well_shaped_tally [OF w] obtain st where "tally stats0 critiques_data = Inr st"
    by blast
  then show "\<exists>tex. generate_summary_table (JArr critiques_data) = Inr tex"
    by (simp add: generate_summary_table_def)
  from render_entries_returns [OF w] obtain body where "render_entries ct 0 critiques_data = Inr body"
    by blast
  then show "\<exists>tex. generate_critiques_section ct (JArr critiques_data) = Inr tex"
    by (simp add: generate_critiques_section_def)
next
  assume a: "well_shaped (JObj entry) \<and> map_of entry ''original_problem'' = None"
  then have o: "dict_get entry ''original_problem'' (JObj []) = JObj []"
    by (simp add: dict_get_def)
  have d0: "dict_get [] k d = d" for k d
    by (simp add: dict_get_def)
  have ns: "format_tex_display_math (JStr (repair_boxed ''No solution'')) = BS @ ''[ No solution '' @ BS @ '']''"
    by code_simp
  from a render_entry_parts [of entry ct i] obtain original s rest where
      "dict_get entry ''original_problem'' (JObj []) = JObj original"
      "dict_get original ''final_solution'' (JStr ''No solution'') = JStr s"
      "render_entry ct i (JObj entry) =
               Inr (entry_heading ct i entry
                    @ BS @ ''subsubsection*{Original Problem Statement}'' @ NL
                    @ py_format ct (dict_get original ''problem_statement'' (JStr ''No problem statement''))
                    @ NL @ NL
                    @ BS @ ''subsubsection*{Original Solution}'' @ NL
                    @ format_tex_display_math (JStr (repair_boxed s)) @ NL @ NL
                    @ BS @ ''subsubsection*{Critiques}'' @ NL
                    @ rest)"
    by blast
  with o have "original = []" "s = ''No solution''"
    and r: "render_entry ct i (JObj entry) =
               Inr (entry_heading ct i entry
                    @ BS @ ''subsubsection*{Original Problem Statement}'' @ NL
                    @ py_format ct (dict_get original ''problem_statement'' (JStr ''No problem statement''))
                    @ NL @ NL
                    @ BS @ ''subsubsection*{Original Solution}'' @ NL
                    @ format_tex_display_math (JStr (repair_boxed s)) @ NL @ NL
                    @ BS @ ''subsubsection*{Critiques}'' @ NL
                    @ rest)"
    by (simp_all add: d0)
  then have "render_entry ct i (JObj entry) =
         Inr (entry_heading ct i entry
              @ BS @ ''subsubsection*{Original Problem Statement}'' @ NL
              @ ''No problem statement'' @ NL @ NL
              @ BS @ ''subsubsection*{Original Solution}'' @ NL
              @ BS @ ''[ No solution '' @ BS @ '']'' @ NL @ NL
              @ BS @ ''subsubsection*{Critiques}'' @ NL
              @ rest)"
    by (simp only: d0 ns py_format.simps append_assoc)
  then show "\<exists>rest. render_entry ct i (JObj entry) =
         Inr (entry_heading ct i entry
              @ BS @ ''subsubsection*{Original Problem Statement}'' @ NL
              @ ''No problem statement'' @ NL @ NL
              @ BS @ ''subsubsection*{Original Solution}'' @ NL
              @ BS @ ''[ No solution '' @ BS @ '']'' @ NL @ NL
              @ BS @ ''subsubsection*{Critiques}'' @ NL
              @ rest)"
    by blast
qed

theorem well_shaped_records_render_witness:
  "(\<exists>tex. generate_summary_table
       (JArr [JObj [(''paper_id'', JStr ''p1''),
                    (''critiques'', JObj [(''difficulty'', JObj [(''issues'', JArr [JObj []])])])]]) = Inr tex)
   \<and> (\<exists>tex. generate_critiques_section (\<lambda>v. [])
       (JArr [JObj [(''paper_id'', JStr ''p1''),
                    (''critiques'', JObj [(''difficulty'', JObj [(''issues'', JArr [JObj []])])])]]) = Inr tex)
   \<and> (\<exists>rest. render_entry (\<lambda>v. []) 0 (JObj [(''paper_id'', JStr ''p1'')]) =
         Inr (entry_heading (\<lambda>v. []) 0 [(''paper_id'', JStr ''p1'')]
              @ BS @ ''subsubsection*{Original Problem Statement}'' @ NL
              @ ''No problem statement'' @ NL @ NL
              @ BS @ ''subsubsection*{Original Solution}'' @ NL
              @ BS @ ''[ No solution '' @ BS @ '']'' @ NL @ NL
              @ BS @ ''subsubsection*{Critiques}'' @ NL
              @ rest))"
proof -
  have w1: "list_all well_shaped
       [JObj [(''paper_id'', JStr ''p1''),
              (''critiques'', JObj [(''difficulty'', JObj [(''issues'', JArr [JObj []])])])]]"
    by (simp add: well_shaped_def dict_get_def critique_ok_def issues_ok_def refined_ok_def has_key_def)
  have w2: "well_shaped (JObj [(''paper_id'', JStr ''p1'')])
            \<and> map_of [(''paper_id'', JStr ''p1'')] ''original_problem'' = None"
    by (simp add: well_shaped_def dict_get_def refined_ok_def has_key_def)
  from well_shaped_records_render [of
        "[JObj [(''paper_id'', JStr ''p1''),
              (''critiques'', JObj [(''difficulty'', JObj [(''issues'', JArr [JObj []])])])]]"
        "\<lambda>v. []" "[(''paper_id'', JStr ''p1'')]" 0] w1 w2
  show ?thesis by blast
qed



subsection \<open>Document Assembler\<close>

lemma final_tex_returns:
  assumes "list_all well_shaped critiques_data"
  shows "\<exists>summary details.
           generate_summary_table (JArr critiques_data) = Inr summary
           \<and> generate_critiques_section ct (JArr critiques_data) = Inr details
           \<and> final_tex ct (JArr critiques_data)
               = Inr (TEX_TEMPLATE_HEADER @ summary @ details @ TEX_TEMPLATE_FOOTER)"
proof -
  from well_shaped_tally [OF assms] obtain st where "tally stats0 critiques_data = Inr st"
    by blast
  then have s: "generate_summary_table (JArr critiques_data) = Inr (render_summary st)"
    by (simp add: generate_summary_table_def)
  from render_entries_returns [OF assms] obtain body
    where "render_entries ct 0 critiques_data = Inr body" by blast
  then have d: "generate_critiques_section ct (JArr critiques_data)
                  = Inr (BS @ ''section*{Problem Details}'' @ NL @ NL @ body)"
    by (simp add: generate_critiques_section_def)
  from s d show ?thesis by (simp add: final_tex_def)
qed

text \<open>
  The input path exists and holds the JSON text \<open>[1]\<close>: the tabulator raises on the
  record \<open>1\<close>, the exception leaves the function and nothing is written or printed.
\<close>

theorem existing_file_with_bad_record_raises:
  "export_critiques_to_tex (\<lambda>v. []) [''[1]'' \<mapsto> JArr [JInt 1]] ''in.json'' ''out.tex''
      \<lparr>nodes = [''in.json'' \<mapsto> File ''[1]''], writable = (\<lambda>path. True), stdout = []\<rparr>
     = (Some AttributeError,
        \<lparr>nodes = [''in.json'' \<mapsto> File ''[1]''], writable = (\<lambda>path. True), stdout = []\<rparr>)"
  by (simp add: export_critiques_to_tex_def os_path_exists_def read_text_def final_tex_def
        generate_summary_table_def tally_entry_def)

text \<open>
  C9: if the input path does not exist, the assembler prints the error line and
  returns with no exception and no file written. If the path holds a file whose content
  loads as a list of records of the documented shape, and the output path can be opened for
  writing, it writes header, summary table, record sections and footer to the output path
  and prints the two success lines.
\<close>

theorem export_missing_or_well_formed:
  "(\<not> os_path_exists w critiques_file \<longrightarrow>
      export_critiques_to_tex ct load critiques_file output_tex_file w
        = (None, w\<lparr>stdout := stdout w
                       @ [''Error: Critiques file not found at '' @ [CHR 0x27] @ critiques_file @ [CHR 0x27]]\<rparr>))
   \<and> (nodes w critiques_file = Some (File content) \<and> load content = Some (JArr critiques_data)
        \<and> list_all well_shaped critiques_data \<and> writable w output_tex_file \<longrightarrow>
      (\<exists>summary details.
         generate_summary_table (JArr critiques_data) = Inr summary
         \<and> generate_critiques_section ct (JArr critiques_data) = Inr details
         \<and> export_critiques_to_tex ct load critiques_file output_tex_file w
             = (None,
                w\<lparr>nodes := (nodes w)(output_tex_file \<mapsto>
                              File (TEX_TEMPLATE_HEADER @ summary @ details @ TEX_TEMPLATE_FOOTER)),
                  stdout := stdout w
                    @ [''LaTeX critiques report successfully generated at '' @ [CHR 0x27]
                         @ output_tex_file @ [CHR 0x27],
                       ''You can now compile this file using a LaTeX distribution (like pdflatex) to create a PDF.'']\<rparr>)))"
proof -
  have p1: "export_critiques_to_tex ct load critiques_file output_tex_file w
        = (None, w\<lparr>stdout := stdout w
                       @ [''Error: Critiques file not found at '' @ [CHR 0x27] @ critiques_file @ [CHR 0x27]]\<rparr>)"
    if "\<not> os_path_exists w critiques_file"
    using that by (simp add: export_critiques_to_tex_def not_found_message_def)
  have p2: "\<exists>summary details.
         generate_summary_table (JArr critiques_data) = Inr summary
         \<and> generate_critiques_section ct (JArr critiques_data) = Inr details
         \<and> export_critiques_to_tex ct load critiques_file output_tex_file w
             = (None,
                w\<lparr>nodes := (nodes w)(output_tex_file \<mapsto>
                              File (TEX_TEMPLATE_HEADER @ summary @ details @ TEX_TEMPLATE_FOOTER)),
                  stdout := stdout w
                    @ [''LaTeX critiques report successfully generated at '' @ [CHR 0x27]
                         @ output_tex_file @ [CHR 0x27],
                       ''You can now compile this file using a LaTeX distribution (like pdflatex) to create a PDF.'']\<rparr>)"
    if a: "nodes w critiques_file = Some (File content)" "load content = Some (JArr critiques_data)"
       "list_all well_shaped critiques_data" "writable w output_tex_file"
  proof -
    from final_tex_returns [OF a(3), of ct] obtain summary details where
        s: "generate_summary_table (JArr critiques_data) = Inr summary"
        and d: "generate_critiques_section ct (JArr critiques_data) = Inr details"
        and f: "final_tex ct (JArr critiques_data)
               = Inr (TEX_TEMPLATE_HEADER @ summary @ details @ TEX_TEMPLATE_FOOTER)"
      by blast
    have "export_critiques_to_tex ct load critiques_file output_tex_file w
             = (None,
                w\<lparr>nodes := (nodes w)(output_tex_file \<mapsto>
                              File (TEX_TEMPLATE_HEADER @ summary @ details @ TEX_TEMPLATE_FOOTER)),
                  stdout := stdout w
                    @ [''LaTeX critiques report successfully generated at '' @ [CHR 0x27]
                         @ output_tex_file @ [CHR 0x27],
                       ''You can now compile this file using a LaTeX distribution (like pdflatex) to create a PDF.'']\<rparr>)"
      using a f
      by (simp add: export_critiques_to_tex_def os_path_exists_def read_text_def
            success_messages_def)
    with s d show ?thesis by blast
  qed
  from p1 p2 show ?thesis by blast
qed

theorem export_missing_or_well_formed_witness:
  "export_critiques_to_tex (\<lambda>v. []) [''[{}]'' \<mapsto> JArr [JObj []]] ''in.json'' ''out.tex''
      \<lparr>nodes = Map.empty, writable = (\<lambda>path. True), stdout = []\<rparr>
     = (None, \<lparr>nodes = Map.empty, writable = (\<lambda>path. True),
               stdout = [''Error: Critiques file not found at '' @ [CHR 0x27] @ ''in.json'' @ [CHR 0x27]]\<rparr>)
   \<and> (\<exists>summary details.
        generate_summary_table (JArr [JObj []]) = Inr summary
        \<and> generate_critiques_section (\<lambda>v. []) (JArr [JObj []]) = Inr details
        \<and> export_critiques_to_tex (\<lambda>v. []) [''[{}]'' \<mapsto> JArr [JObj []]] ''in.json'' ''out.tex''
            \<lparr>nodes = [''in.json'' \<mapsto> File ''[{}]''], writable = (\<lambda>path. True), stdout = []\<rparr>
           = (None,
              \<lparr>nodes = [''in.json'' \<mapsto> File ''[{}]'',
                        ''out.tex'' \<mapsto> File (TEX_TEMPLATE_HEADER @ summary @ details @ TEX_TEMPLATE_FOOTER)],
               writable = (\<lambda>path. True),
               stdout = [''LaTeX critiques report successfully generated at '' @ [CHR 0x27]
                           @ ''out.tex'' @ [CHR 0x27],
                         ''You can now compile this file using a LaTeX distribution (like pdflatex) to create a PDF.'']\<rparr>))"
proof -
  have a: "export_critiques_to_tex (\<lambda>v. []) [''[{}]'' \<mapsto> JArr [JObj []]] ''in.json'' ''out.tex''
      \<lparr>nodes = Map.empty, writable = (\<lambda>path. True), stdout = []\<rparr>
     = (None, \<lparr>nodes = Map.empty, writable = (\<lambda>path. True),
               stdout = [''Error: Critiques file not found at '' @ [CHR 0x27] @ ''in.json'' @ [CHR 0x27]]\<rparr>)"
    using export_missing_or_well_formed [of
        "\<lparr>nodes = Map.empty, writable = (\<lambda>path. True), stdout = []\<rparr>" "''in.json''"
        "\<lambda>v. []" "[''[{}]'' \<mapsto> JArr [JObj []]]" "''out.tex''"]
    by (simp add: os_path_exists_def)
  have b: "\<exists>summary details.
        generate_summary_table (JArr [JObj []]) = Inr summary
        \<and> generate_critiques_section (\<lambda>v. []) (JArr [JObj []]) = Inr details
        \<and> export_critiques_to_tex (\<lambda>v. []) [''[{}]'' \<mapsto> JArr [JObj []]] ''in.json'' ''out.tex''
            \<lparr>nodes = [''in.json'' \<mapsto> File ''[{}]''], writable = (\<lambda>path. True), stdout = []\<rparr>
           = (None,
              \<lparr>nodes = [''in.json'' \<mapsto> File ''[{}]'',
                        ''out.tex'' \<mapsto> File (TEX_TEMPLATE_HEADER @ summary @ details @ TEX_TEMPLATE_FOOTER)],
               writable = (\<lambda>path. True),
               stdout = [''LaTeX critiques report successfully generated at '' @ [CHR 0x27]
                           @ ''out.tex'' @ [CHR 0x27],
                         ''You can now compile this file using a LaTeX distribution (like pdflatex) to create a PDF.'']\<rparr>)"
    using export_missing_or_well_formed [of
        "\<lparr>nodes = [''in.json'' \<mapsto> File ''[{}]''], writable = (\<lambda>path. True), stdout = []\<rparr>" "''in.json''"
        "\<lambda>v. []" "[''[{}]'' \<mapsto> JArr [JObj []]]" "''out.tex''" "''[{}]''" "[JObj []]"]
    by (simp add: well_shaped_def dict_get_def refined_ok_def has_key_def)
  from a b show ?thesis by blast
qed

subsection \<open>Pass rate\<close>












end
